theory Spec2Isabelle
  imports Complex_Main "HOL-Library.AList"
begin

section \<open>Synapse: physics engine, clustering service and socket manager\<close>

text \<open>
  A shallow embedding of three modules of the Synapse backend:
  \<^verbatim>\<open>src/services/physics_engine.py\<close>, \<open>src/services/clustering_service.py\<close> (with the
  request schema of \<open>src/api/cluster_routes.py\<close>) and \<open>src/websocket/socket_manager.py\<close>.

  Python floats are modelled as the real numbers: every statement below about a
  velocity, a force or a radius is a statement about exact arithmetic, not about IEEE
  rounding. Exceptions are values of the type \<open>error\<close>; a function that can raise
  returns \<open>error + 'a\<close>.
\<close>

datatype error =
    ValueError            \<comment> \<open>numpy: shapes not aligned, sklearn: bad parameters\<close>
  | ZeroDivisionError
  | KeyError
  | IndexError
  | RequestValidationError  \<comment> \<open>pydantic rejects the request body (HTTP 422)\<close>
  | HTTPException nat

subsection \<open>physics\_engine.py: data\<close>

text \<open>
  The dataclass \<open>PhysicsBody\<close>. The fields \<open>id\<close>, \<open>x\<close>, \<open>y\<close>, \<open>vx\<close>, \<open>vy\<close>, \<open>radius\<close> of
  the source are named \<open>body_id\<close>, \<open>pos_x\<close>, \<open>pos_y\<close>, \<open>vel_x\<close>, \<open>vel_y\<close>,
  \<open>body_radius\<close> here. An embedding is \<open>None\<close> or a list of floats.
\<close>

record PhysicsBody =
  body_id :: string
  pos_x :: real
  pos_y :: real
  vel_x :: real
  vel_y :: real
  mass :: real
  body_radius :: real
  embedding :: "real list option"
  cluster_id :: "string option"

text \<open>
  The attributes of \<open>PhysicsEngine\<close>. The registry \<open>self.bodies\<close> is a Python dict, which
  keeps insertion order: an association list from id to body.
\<close>

record PhysicsEngine =
  gravity_strength :: real
  repulsion_strength :: real
  similarity_threshold :: real
  max_attraction_distance :: real
  min_repulsion_distance :: real
  damping :: real
  max_velocity :: real
  time_step :: real
  cluster_gravity :: real
  bodies :: "(string \<times> PhysicsBody) list"

text \<open>\<open>PhysicsEngine.__init__\<close>: the configured constants and an empty registry.\<close>

definition PhysicsEngine_init :: PhysicsEngine where
  "PhysicsEngine_init =
     \<lparr> gravity_strength = 5000, repulsion_strength = 2000, similarity_threshold = 7 / 10,
       max_attraction_distance = 800, min_repulsion_distance = 100,
       damping = 8 / 10, max_velocity = 15, time_step = 16 / 1000,
       cluster_gravity = 1 / 2, bodies = [] \<rparr>"

text \<open>The entry \<open>updates[body_id]\<close> that \<open>step\<close> returns for a body.\<close>

record body_update =
  upd_x :: real
  upd_y :: real
  upd_vx :: real
  upd_vy :: real

text \<open>An entry of the list that \<open>get_nearest_neighbors\<close> returns.\<close>

record neighbor =
  n_id :: string
  n_distance :: real
  n_similarity :: real
  n_x :: real
  n_y :: real

subsection \<open>physics\_engine.py: registry operations\<close>

definition add_body :: "PhysicsEngine \<Rightarrow> PhysicsBody \<Rightarrow> PhysicsEngine" where
  "add_body eng body = eng\<lparr> bodies := AList.update (body_id body) body (bodies eng) \<rparr>"

definition remove_body :: "PhysicsEngine \<Rightarrow> string \<Rightarrow> PhysicsEngine" where
  "remove_body eng bid =
     (if bid \<in> fst ` set (bodies eng) then eng\<lparr> bodies := AList.delete bid (bodies eng) \<rparr>
      else eng)"

definition update_body_position :: "PhysicsEngine \<Rightarrow> string \<Rightarrow> real \<Rightarrow> real \<Rightarrow> PhysicsEngine" where
  "update_body_position eng bid new_x new_y =
     (case map_of (bodies eng) bid of
        None \<Rightarrow> eng
      | Some body \<Rightarrow>
          eng\<lparr> bodies := AList.update bid
                 (body\<lparr> pos_x := new_x, pos_y := new_y, vel_x := 0, vel_y := 0 \<rparr>) (bodies eng) \<rparr>)"

subsection \<open>physics\_engine.py: similarity\<close>

text \<open>
  Python truthiness of an embedding, as tested by \<open>body.embedding and other.embedding\<close>:
  \<open>None\<close> and the empty list are false, every non-empty list is true (also a list of
  zeros).
\<close>

definition truthy :: "real list option \<Rightarrow> bool" where
  "truthy e = (case e of None \<Rightarrow> False | Some v \<Rightarrow> v \<noteq> [])"

text \<open>\<open>np.linalg.norm\<close> and \<open>np.dot\<close> on one-dimensional arrays.\<close>

definition linalg_norm :: "real list \<Rightarrow> real" where
  "linalg_norm v = sqrt (sum_list (map (\<lambda>a. a * a) v))"

definition np_dot :: "real list \<Rightarrow> real list \<Rightarrow> error + real" where
  "np_dot u v =
     (if length u \<noteq> length v then Inl ValueError
      else Inr (sum_list (map (\<lambda>(a, b). a * b) (zip u v))))"

text \<open>
  \<open>compute_similarity\<close>: both vectors are divided by their norm plus \<open>1e-8\<close>, and the dot
  product is rescaled by \<open>(similarity + 1) / 2\<close>. \<open>np.dot\<close> raises on vectors of different
  lengths.
\<close>

definition compute_similarity :: "real list \<Rightarrow> real list \<Rightarrow> error + real" where
  "compute_similarity embedding1 embedding2 =
     (let vec1_norm = map (\<lambda>a. a / (linalg_norm embedding1 + 1 / 10 ^ 8)) embedding1;
          vec2_norm = map (\<lambda>a. a / (linalg_norm embedding2 + 1 / 10 ^ 8)) embedding2
      in case np_dot vec1_norm vec2_norm of
           Inl e \<Rightarrow> Inl e
         | Inr similarity \<Rightarrow> Inr ((similarity + 1) / 2))"

subsection \<open>physics\_engine.py: forces\<close>

text \<open>
  The body of the loop of \<open>compute_forces\<close> for one \<open>other\<close>, in the order of the source:
  the distance clamped below at 1, the unit vector, the repulsion term and the
  attraction term. \<open>pair_geometry\<close> gives \<open>(distance, ux, uy)\<close>.
\<close>

definition pair_geometry :: "PhysicsBody \<Rightarrow> PhysicsBody \<Rightarrow> real \<times> real \<times> real" where
  "pair_geometry body other =
     (let dx = pos_x other - pos_x body;
          dy = pos_y other - pos_y body;
          distance0 = sqrt (dx * dx + dy * dy);
          distance = (if distance0 < 1 then 1 else distance0)
      in (distance, dx / distance, dy / distance))"

text \<open>What the repulsion branch adds to \<open>(fx, fy)\<close>: \<open>(0, 0)\<close> when the branch is not taken.\<close>

definition repulsion :: "PhysicsEngine \<Rightarrow> PhysicsBody \<Rightarrow> PhysicsBody \<Rightarrow> real \<times> real" where
  "repulsion eng body other =
     (case pair_geometry body other of (distance, ux, uy) \<Rightarrow>
        if distance < min_repulsion_distance eng then
          let repulsion_force =
                repulsion_strength eng * (1 - distance / min_repulsion_distance eng)
          in (- (ux * repulsion_force), - (uy * repulsion_force))
        else (0, 0))"

text \<open>
  What the attraction branch adds to \<open>(fx, fy)\<close>. The division by
  \<open>1 - similarity_threshold\<close> is a division of Python floats, which raises on zero.
\<close>

definition attraction :: "PhysicsEngine \<Rightarrow> PhysicsBody \<Rightarrow> PhysicsBody \<Rightarrow> error + real \<times> real" where
  "attraction eng body other =
     (case pair_geometry body other of (distance, ux, uy) \<Rightarrow>
        if truthy (embedding body) \<and> truthy (embedding other)
           \<and> distance < max_attraction_distance eng then
          (case compute_similarity (the (embedding body)) (the (embedding other)) of
             Inl e \<Rightarrow> Inl e
           | Inr similarity \<Rightarrow>
               if similarity > similarity_threshold eng then
                 if 1 - similarity_threshold eng = 0 then Inl ZeroDivisionError
                 else
                   let attraction_force =
                         gravity_strength eng * (similarity - similarity_threshold eng)
                           / (1 - similarity_threshold eng)
                           * (1 - distance / max_attraction_distance eng)
                   in Inr (ux * attraction_force, uy * attraction_force)
               else Inr (0, 0))
        else Inr (0, 0))"

text \<open>The force that \<open>body\<close> receives from \<open>other\<close>: repulsion plus attraction.\<close>

definition pair_force :: "PhysicsEngine \<Rightarrow> PhysicsBody \<Rightarrow> PhysicsBody \<Rightarrow> error + real \<times> real" where
  "pair_force eng body other =
     (case attraction eng body other of
        Inl e \<Rightarrow> Inl e
      | Inr (ax, ay) \<Rightarrow>
          (case repulsion eng body other of (rx, ry) \<Rightarrow> Inr (rx + ax, ry + ay)))"

text \<open>
  The loop \<open>for other_id, other in self.bodies.items()\<close> of \<open>compute_forces\<close>, with the
  accumulator \<open>(fx, fy)\<close>; the entry whose key is \<open>body.id\<close> is skipped.
\<close>

fun compute_forces_loop ::
  "PhysicsEngine \<Rightarrow> PhysicsBody \<Rightarrow> (string \<times> PhysicsBody) list \<Rightarrow> real \<times> real
     \<Rightarrow> error + real \<times> real" where
  "compute_forces_loop eng body [] acc = Inr acc"
| "compute_forces_loop eng body ((other_id, other) # rest) (fx, fy) =
     (if other_id = body_id body then compute_forces_loop eng body rest (fx, fy)
      else
        (case pair_force eng body other of
           Inl e \<Rightarrow> Inl e
         | Inr (px, py) \<Rightarrow> compute_forces_loop eng body rest (fx + px, fy + py)))"

definition compute_forces :: "PhysicsEngine \<Rightarrow> PhysicsBody \<Rightarrow> error + real \<times> real" where
  "compute_forces eng body = compute_forces_loop eng body (bodies eng) (0, 0)"

subsection \<open>physics\_engine.py: step\<close>

text \<open>
  The velocity of a body after the force and the damping have been applied (lines
  146 to 155 of the source), before the cap.
\<close>

definition damped_velocity :: "PhysicsEngine \<Rightarrow> PhysicsBody \<Rightarrow> real \<times> real \<Rightarrow> real \<times> real" where
  "damped_velocity eng body f =
     (case f of (fx, fy) \<Rightarrow>
        let ax = fx / mass body;
            ay = fy / mass body
        in ((vel_x body + ax * time_step eng) * damping eng,
            (vel_y body + ay * time_step eng) * damping eng))"

text \<open>The cap: stop below 0.1, rescale above \<open>max_velocity\<close> (lines 158 to 165).\<close>

definition cap_velocity :: "PhysicsEngine \<Rightarrow> real \<times> real \<Rightarrow> real \<times> real" where
  "cap_velocity eng v =
     (case v of (vx, vy) \<Rightarrow>
        let velocity = sqrt (vx * vx + vy * vy)
        in if velocity < 1 / 10 then (0, 0)
           else if velocity > max_velocity eng then
             let scale = max_velocity eng / velocity in (vx * scale, vy * scale)
           else (vx, vy))"

text \<open>
  One body of the loop of \<open>step\<close>, given the force on it: \<open>fx / body.mass\<close> raises
  when the mass is zero, before anything is assigned.
\<close>

definition integrate_body :: "PhysicsEngine \<Rightarrow> PhysicsBody \<Rightarrow> real \<times> real \<Rightarrow> error + PhysicsBody" where
  "integrate_body eng body f =
     (if mass body = 0 then Inl ZeroDivisionError
      else
        (case cap_velocity eng (damped_velocity eng body f) of (vx, vy) \<Rightarrow>
           Inr (body\<lparr> vel_x := vx, vel_y := vy,
                      pos_x := pos_x body + vx * time_step eng * 60,
                      pos_y := pos_y body + vy * time_step eng * 60 \<rparr>)))"

definition update_of :: "PhysicsBody \<Rightarrow> body_update" where
  "update_of body =
     \<lparr> upd_x = pos_x body, upd_y = pos_y body, upd_vx = vel_x body, upd_vy = vel_y body \<rparr>"

text \<open>
  The loop of \<open>step\<close>. The bodies are mutated in place while the loop runs, so the forces
  on a later body are computed from the registry that already holds the new positions
  of the earlier ones: the engine is threaded through the loop. An exception leaves the
  registry as the completed iterations made it.
\<close>

fun step_loop ::
  "PhysicsEngine \<Rightarrow> (string \<times> PhysicsBody) list \<Rightarrow> (string \<times> body_update) list
     \<Rightarrow> (error + (string \<times> body_update) list) \<times> PhysicsEngine" where
  "step_loop eng [] updates = (Inr updates, eng)"
| "step_loop eng ((bid, body) # rest) updates =
     (case compute_forces eng body of
        Inl e \<Rightarrow> (Inl e, eng)
      | Inr f \<Rightarrow>
          (case integrate_body eng body f of
             Inl e \<Rightarrow> (Inl e, eng)
           | Inr body' \<Rightarrow>
               step_loop (eng\<lparr> bodies := AList.update bid body' (bodies eng) \<rparr>) rest
                 (AList.update bid (update_of body') updates)))"

definition step :: "PhysicsEngine \<Rightarrow> (error + (string \<times> body_update) list) \<times> PhysicsEngine" where
  "step eng = step_loop eng (bodies eng) []"

subsection \<open>physics\_engine.py: nearest neighbours\<close>

text \<open>
  The similarity that the loop of \<open>get_nearest_neighbors\<close> assigns to \<open>other\<close>: 0 unless
  both embeddings are truthy.
\<close>

definition neighbor_similarity :: "PhysicsBody \<Rightarrow> PhysicsBody \<Rightarrow> error + real" where
  "neighbor_similarity body other =
     (if truthy (embedding body) \<and> truthy (embedding other)
      then compute_similarity (the (embedding body)) (the (embedding other))
      else Inr 0)"

definition neighbor_distance :: "PhysicsBody \<Rightarrow> PhysicsBody \<Rightarrow> real" where
  "neighbor_distance body other =
     (let dx = pos_x other - pos_x body;
          dy = pos_y other - pos_y body
      in sqrt (dx * dx + dy * dy))"

fun neighbors_loop ::
  "PhysicsBody \<Rightarrow> string \<Rightarrow> real \<Rightarrow> real \<Rightarrow> (string \<times> PhysicsBody) list \<Rightarrow> neighbor list
     \<Rightarrow> error + neighbor list" where
  "neighbors_loop body bid max_distance min_similarity [] neighbors = Inr neighbors"
| "neighbors_loop body bid max_distance min_similarity ((other_id, other) # rest) neighbors =
     (if other_id = bid then
        neighbors_loop body bid max_distance min_similarity rest neighbors
      else
        let distance = neighbor_distance body other
        in if distance > max_distance then
             neighbors_loop body bid max_distance min_similarity rest neighbors
           else
             (case neighbor_similarity body other of
                Inl e \<Rightarrow> Inl e
              | Inr similarity \<Rightarrow>
                  if similarity \<ge> min_similarity then
                    neighbors_loop body bid max_distance min_similarity rest
                      (neighbors @
                         [\<lparr> n_id = other_id, n_distance = distance, n_similarity = similarity,
                            n_x = pos_x other, n_y = pos_y other \<rparr>])
                  else neighbors_loop body bid max_distance min_similarity rest neighbors))"

text \<open>
  \<open>neighbors.sort(key=lambda n: n["similarity"], reverse=True)\<close> is a stable sort by
  descending similarity: a stable insertion sort on the negated key.
\<close>

definition get_nearest_neighbors ::
  "PhysicsEngine \<Rightarrow> string \<Rightarrow> real \<Rightarrow> real \<Rightarrow> error + neighbor list" where
  "get_nearest_neighbors eng bid max_distance min_similarity =
     (case map_of (bodies eng) bid of
        None \<Rightarrow> Inr []
      | Some body \<Rightarrow>
          (case neighbors_loop body bid max_distance min_similarity (bodies eng) [] of
             Inl e \<Rightarrow> Inl e
           | Inr neighbors \<Rightarrow> Inr (sort_key (\<lambda>n. - n_similarity n) neighbors)))"

subsection \<open>clustering\_service.py: data\<close>

text \<open>
  An item dictionary as \<open>compute_clusters\<close> reads it. A position that is \<open>None\<close> here is
  a key that the dictionary does not have: \<open>item.get('position_x', 0)\<close> is then 0.
\<close>

record item =
  item_id :: string
  content :: "string option"
  title :: "string option"
  position_x :: "real option"
  position_y :: "real option"

text \<open>The dataclass \<open>Cluster\<close>; its fields \<open>id\<close> and \<open>keywords\<close> are named \<open>cl_id\<close> and
  \<open>cl_keywords\<close> here.\<close>

record Cluster =
  cl_id :: string
  name :: string
  color :: string
  center_x :: real
  center_y :: real
  radius :: real
  item_ids :: "string list"
  cl_keywords :: "string list"

definition CLUSTER_COLORS :: "string list" where
  "CLUSTER_COLORS =
     [''#FF6B6B'', ''#4ECDC4'', ''#45B7D1'', ''#96CEB4'', ''#FFEAA7'',
      ''#DDA0DD'', ''#98D8C8'', ''#F7DC6F'', ''#BB8FCE'', ''#85C1E9'']"

text \<open>The attributes of \<open>ClusteringService\<close>, set by its constructor.\<close>

record ClusteringService =
  algorithm :: string
  eps :: real
  min_samples :: int
  n_clusters :: "int option"

definition ClusteringService_default :: ClusteringService where
  "ClusteringService_default =
     \<lparr> algorithm = ''dbscan'', eps = 1 / 2, min_samples = 2, n_clusters = None \<rparr>"

text \<open>
  What the service calls outside this repository, taken as parameters about which nothing
  is assumed: \<open>StandardScaler().fit_transform(np.array(embeddings))\<close>, the \<open>fit_predict\<close>
  of scikit-learn's \<open>DBSCAN(eps, min_samples, metric='cosine')\<close> and
  \<open>KMeans(n_clusters, random_state=42, n_init=10)\<close> (each may raise), the order in which
  Python iterates over \<open>set(labels)\<close>, the keyword extraction \<open>_extract_keywords\<close> (regular
  expressions and \<open>Counter.most_common\<close>), and \<open>str.capitalize\<close>.
\<close>

record externals =
  fit_transform :: "real list list \<Rightarrow> error + real list list"
  dbscan_fit_predict :: "real \<Rightarrow> int \<Rightarrow> real list list \<Rightarrow> error + int list"
  kmeans_fit_predict :: "int \<Rightarrow> real list list \<Rightarrow> error + int list"
  set_iteration :: "int list \<Rightarrow> int list"
  extract_keywords :: "item list \<Rightarrow> error + string list"
  capitalize :: "string \<Rightarrow> string"

subsection \<open>clustering\_service.py: building clusters\<close>

text \<open>The decimal text of an integer, as the f-string \<open>f"cluster-{label}"\<close> prints it.\<close>

function str_nat :: "nat \<Rightarrow> string" where
  "str_nat n =
     (if n < 10 then [''0123456789'' ! n]
      else str_nat (n div 10) @ [''0123456789'' ! (n mod 10)])"
  by pat_completeness auto
termination
  by (relation "measure (\<lambda>n. n)") auto

definition str_int :: "int \<Rightarrow> string" where
  "str_int i = (if i < 0 then CHR ''-'' # str_nat (nat (- i)) else str_nat (nat i))"

text \<open>\<open>" & ".join(...)\<close>\<close>

fun join_amp :: "string list \<Rightarrow> string" where
  "join_amp [] = []"
| "join_amp [w] = w"
| "join_amp (w # ws) = w @ '' & '' @ join_amp ws"

definition generate_cluster_name :: "externals \<Rightarrow> string list \<Rightarrow> string" where
  "generate_cluster_name ext kws =
     (if kws = [] then ''Miscellaneous''
      else let name_words = take 3 kws in join_amp (map (capitalize ext) name_words))"

text \<open>
  \<open>[items[i] for i in range(len(items)) if labels[i] == label]\<close>: \<open>labels[i]\<close> raises when
  there are fewer labels than items.
\<close>

definition cluster_members :: "item list \<Rightarrow> int list \<Rightarrow> int \<Rightarrow> error + item list" where
  "cluster_members items labels label =
     (if length labels < length items then Inl IndexError
      else Inr (map fst (filter (\<lambda>(it, l). l = label) (zip items labels))))"

definition item_position :: "item \<Rightarrow> real \<times> real" where
  "item_position it =
     (case position_x it of None \<Rightarrow> 0 | Some px \<Rightarrow> px,
      case position_y it of None \<Rightarrow> 0 | Some py \<Rightarrow> py)"

text \<open>Python's \<open>max\<close> of a sequence raises on an empty one.\<close>

definition py_max :: "real list \<Rightarrow> error + real" where
  "py_max ds = (case ds of [] \<Rightarrow> Inl ValueError | d # ds' \<Rightarrow> Inr (fold max ds' d))"

text \<open>
  Centre and radius of a cluster from the positions of its members (lines 150 to 158):
  \<open>(center_x, center_y, radius)\<close>.
\<close>

definition cluster_geometry :: "(real \<times> real) list \<Rightarrow> error + real \<times> real \<times> real" where
  "cluster_geometry positions =
     (if length positions = 0 then Inl ZeroDivisionError
      else
        let cx = sum_list (map fst positions) / real (length positions);
            cy = sum_list (map snd positions) / real (length positions)
        in case py_max (map (\<lambda>p. sqrt ((fst p - cx)\<^sup>2 + (snd p - cy)\<^sup>2)) positions) of
             Inl e \<Rightarrow> Inl e
           | Inr max_dist \<Rightarrow> Inr (cx, cy, max_dist + 100))"

text \<open>
  The loop \<open>for label_idx, label in enumerate(unique_labels)\<close> of \<open>_build_clusters\<close>.
\<close>

fun build_clusters_loop ::
  "externals \<Rightarrow> item list \<Rightarrow> int list \<Rightarrow> (nat \<times> int) list \<Rightarrow> Cluster list
     \<Rightarrow> error + Cluster list" where
  "build_clusters_loop ext items labels [] clusters = Inr clusters"
| "build_clusters_loop ext items labels ((label_idx, label) # rest) clusters =
     (if label = - 1 then build_clusters_loop ext items labels rest clusters
      else
        (case cluster_members items labels label of
           Inl e \<Rightarrow> Inl e
         | Inr cluster_items \<Rightarrow>
             if length cluster_items < 2 then build_clusters_loop ext items labels rest clusters
             else
               (case cluster_geometry (map item_position cluster_items) of
                  Inl e \<Rightarrow> Inl e
                | Inr (cx, cy, r) \<Rightarrow>
                    (case extract_keywords ext cluster_items of
                       Inl e \<Rightarrow> Inl e
                     | Inr kws \<Rightarrow>
                         build_clusters_loop ext items labels rest
                           (clusters @
                              [\<lparr> cl_id = ''cluster-'' @ str_int label,
                                 name = generate_cluster_name ext kws,
                                 color = CLUSTER_COLORS ! (label_idx mod length CLUSTER_COLORS),
                                 center_x = cx, center_y = cy, radius = r,
                                 item_ids = map item_id cluster_items,
                                 cl_keywords = take 5 kws \<rparr>])))))"

definition build_clusters :: "externals \<Rightarrow> item list \<Rightarrow> int list \<Rightarrow> error + Cluster list" where
  "build_clusters ext items labels =
     (let unique_labels = set_iteration ext labels
      in build_clusters_loop ext items labels (enumerate 0 unique_labels) [])"

subsection \<open>clustering\_service.py: compute\_clusters\<close>

definition dbscan_cluster :: "externals \<Rightarrow> ClusteringService \<Rightarrow> real list list \<Rightarrow> error + int list" where
  "dbscan_cluster ext svc X = dbscan_fit_predict ext (eps svc) (min_samples svc) X"

text \<open>\<open>self.n_clusters or min(max(2, n_items // 5), 10)\<close>: \<open>None\<close> and 0 are false.\<close>

definition kmeans_cluster ::
  "externals \<Rightarrow> ClusteringService \<Rightarrow> real list list \<Rightarrow> nat \<Rightarrow> error + int list" where
  "kmeans_cluster ext svc X n_items =
     (let auto_k = min (max 2 (int n_items div 5)) 10;
          k = (case n_clusters svc of None \<Rightarrow> auto_k | Some n \<Rightarrow> if n = 0 then auto_k else n)
      in kmeans_fit_predict ext k X)"

definition compute_clusters ::
  "externals \<Rightarrow> ClusteringService \<Rightarrow> item list \<Rightarrow> real list list \<Rightarrow> error + Cluster list" where
  "compute_clusters ext svc items embeddings =
     (if length items < 2 \<or> length embeddings < 2 then Inr []
      else
        (case fit_transform ext embeddings of
           Inl e \<Rightarrow> Inl e
         | Inr X_scaled \<Rightarrow>
             (case (if algorithm svc = ''dbscan'' then dbscan_cluster ext svc X_scaled
                    else kmeans_cluster ext svc X_scaled (length items)) of
                Inl e \<Rightarrow> Inl e
              | Inr labels \<Rightarrow> build_clusters ext items labels)))"

subsection \<open>cluster\_routes.py: the compute request\<close>

text \<open>The pydantic model \<open>ComputeClustersRequest\<close>.\<close>

record ComputeClustersRequest =
  req_algorithm :: string
  req_eps :: real
  req_min_samples :: int
  req_n_clusters :: "int option"
  use_llm_naming :: bool

text \<open>
  The constraints of the fields: \<open>pattern=r"^(dbscan|kmeans)$"\<close>, \<open>ge=0.1, le=2.0\<close>,
  \<open>ge=2, le=10\<close> and, for a given \<open>n_clusters\<close>, \<open>ge=2, le=20\<close>. A body that violates one
  is rejected. The model is a pydantic 2 model (\<open>Field(pattern=...)\<close>, \<open>model_dump\<close>), whose
  pattern engine takes \<open>$\<close> as the end of the text: the pattern accepts the two names
  and nothing else.
\<close>

definition validate_ComputeClustersRequest ::
  "ComputeClustersRequest \<Rightarrow> error + ComputeClustersRequest" where
  "validate_ComputeClustersRequest r =
     (if (req_algorithm r = ''dbscan'' \<or> req_algorithm r = ''kmeans'')
         \<and> 1 / 10 \<le> req_eps r \<and> req_eps r \<le> 2
         \<and> 2 \<le> req_min_samples r \<and> req_min_samples r \<le> 10
         \<and> (case req_n_clusters r of None \<Rightarrow> True | Some n \<Rightarrow> 2 \<le> n \<and> n \<le> 20)
      then Inr r else Inl RequestValidationError)"

text \<open>
  The route \<open>POST /api/clusters/workspace/{workspace_id}/compute\<close>, from the request body
  to the computed clusters. FastAPI validates the body against the model before it
  calls the handler. The handler's lookup of the workspace, its reads and writes of the
  database and the optional naming by a language model are not modelled: \<open>items\<close> and
  \<open>embeddings\<close> are what \<open>get_items_with_embeddings\<close> returned.
\<close>

definition compute_clusters_route ::
  "externals \<Rightarrow> ComputeClustersRequest \<Rightarrow> item list \<Rightarrow> real list list \<Rightarrow> error + Cluster list" where
  "compute_clusters_route ext body items embeddings =
     (case validate_ComputeClustersRequest body of
        Inl e \<Rightarrow> Inl e
      | Inr request \<Rightarrow>
          if length items < 2 then Inl (HTTPException 400)
          else
            let service = \<lparr> algorithm = req_algorithm request, eps = req_eps request,
                            min_samples = req_min_samples request,
                            n_clusters = req_n_clusters request \<rparr>
            in compute_clusters ext service items embeddings)"

subsection \<open>socket\_manager.py: data\<close>

text \<open>
  An entry of \<open>self.user_info\<close>. \<open>connect\<close> stores \<open>connected_at\<close> and
  \<open>workspace_id = None\<close>; the key \<open>user_name\<close> is absent (\<open>None\<close> here) until a join.
\<close>

record user_info_entry =
  connected_at :: string
  workspace_id :: "string option"
  user_name :: "string option"

text \<open>
  The dictionary \<open>data\<close> that a client sends with an event: \<open>None\<close> is a key that is
  absent. Values other than the two names are opaque JSON texts.
\<close>

record event_data =
  d_workspace_id :: "string option"
  d_user_name :: "string option"
  d_item :: "string option"
  d_item_id :: "string option"
  d_updates :: "string option"
  d_x :: "string option"
  d_y :: "string option"

text \<open>The payloads of the events that the handlers emit, one constructor per event.\<close>

datatype payload =
    UserLeft string
  | UserJoined string string string
  | ItemCreated "string option" string string
  | ItemUpdated "string option" "string option" string string
  | ItemDeleted "string option" string string
  | ItemMoved "string option" "string option" "string option" string string
  | CursorMove string string "string option" "string option" string

text \<open>A call \<open>self.sio.emit(event, payload, room=..., skip_sid=...)\<close>.\<close>

record emission =
  ev_name :: string
  ev_payload :: payload
  ev_room :: string
  ev_skip_sid :: "string option"

text \<open>
  The state of a \<open>SocketManager\<close>: its two dictionaries, the room table of the Socket.IO
  server (\<open>sio_rooms r\<close> is the set of connections in room \<open>r\<close>, changed by
  \<open>enter_room\<close> and \<open>leave_room\<close>), and the emissions made so far, oldest first.
\<close>

record SocketManager =
  workspace_users :: "string \<rightharpoonup> string set"
  user_info :: "string \<rightharpoonup> user_info_entry"
  sio_rooms :: "string \<Rightarrow> string set"
  emitted :: "emission list"

definition SocketManager_init :: SocketManager where
  "SocketManager_init =
     \<lparr> workspace_users = Map.empty, user_info = Map.empty, sio_rooms = (\<lambda>r. {}),
       emitted = [] \<rparr>"

text \<open>
  What a handler returns to the client: nothing, \<open>{'error': ...}\<close>, \<open>{'success': True}\<close>,
  or the answer to a join with the workspace and the other users as pairs of id and
  name. The source builds \<open>other_users\<close> as a list in the iteration order of a Python
  set, which is unspecified: it is a set here.
\<close>

datatype response =
    NoResponse
  | ErrorResponse string
  | SuccessResponse
  | JoinResponse string "(string \<times> string) set"

subsection \<open>socket\_manager.py: the Socket.IO server\<close>

text \<open>
  The server delivers an emission to the connections that are in its room when it is
  made, except \<open>skip_sid\<close>.
\<close>

definition recipients :: "SocketManager \<Rightarrow> emission \<Rightarrow> string set" where
  "recipients st em =
     sio_rooms st (ev_room em) - (case ev_skip_sid em of None \<Rightarrow> {} | Some s \<Rightarrow> {s})"

definition emit :: "SocketManager \<Rightarrow> emission \<Rightarrow> SocketManager" where
  "emit st em = st\<lparr> emitted := emitted st @ [em] \<rparr>"

definition enter_room :: "SocketManager \<Rightarrow> string \<Rightarrow> string \<Rightarrow> SocketManager" where
  "enter_room st sid r = st\<lparr> sio_rooms := (sio_rooms st)(r := insert sid (sio_rooms st r)) \<rparr>"

definition leave_room :: "SocketManager \<Rightarrow> string \<Rightarrow> string \<Rightarrow> SocketManager" where
  "leave_room st sid r = st\<lparr> sio_rooms := (sio_rooms st)(r := sio_rooms st r - {sid}) \<rparr>"

text \<open>When a connection closes, the server takes it out of every room.\<close>

definition sio_close :: "SocketManager \<Rightarrow> string \<Rightarrow> SocketManager" where
  "sio_close st sid = st\<lparr> sio_rooms := (\<lambda>r. sio_rooms st r - {sid}) \<rparr>"

subsection \<open>socket\_manager.py: handlers\<close>

text \<open>Truthiness of a string that may be \<open>None\<close>: \<open>None\<close> and the empty string are false.\<close>

definition truthy_str :: "string option \<Rightarrow> bool" where
  "truthy_str w = (case w of None \<Rightarrow> False | Some t \<Rightarrow> t \<noteq> [])"

text \<open>\<open>self.user_info.get(sid, {}).get('workspace_id')\<close>\<close>

definition current_workspace :: "SocketManager \<Rightarrow> string \<Rightarrow> string option" where
  "current_workspace st sid =
     (case user_info st sid of None \<Rightarrow> None | Some info \<Rightarrow> workspace_id info)"

text \<open>\<open>self.user_info.get(uid, {}).get('user_name', 'Anonymous')\<close>\<close>

definition name_of_user :: "SocketManager \<Rightarrow> string \<Rightarrow> string" where
  "name_of_user st uid =
     (case user_info st uid of
        None \<Rightarrow> ''Anonymous''
      | Some info \<Rightarrow> (case user_name info of None \<Rightarrow> ''Anonymous'' | Some n \<Rightarrow> n))"

text \<open>\<open>self.workspace_users[w].discard(sid)\<close> and \<open>.add(sid)\<close>, for a key \<open>w\<close> that is present.\<close>

definition discard_user :: "SocketManager \<Rightarrow> string \<Rightarrow> string \<Rightarrow> SocketManager" where
  "discard_user st w sid =
     st\<lparr> workspace_users := (workspace_users st)(w \<mapsto> the (workspace_users st w) - {sid}) \<rparr>"

definition add_user :: "SocketManager \<Rightarrow> string \<Rightarrow> string \<Rightarrow> SocketManager" where
  "add_user st w sid =
     st\<lparr> workspace_users := (workspace_users st)(w \<mapsto> insert sid (the (workspace_users st w))) \<rparr>"

definition connect :: "SocketManager \<Rightarrow> string \<Rightarrow> string \<Rightarrow> SocketManager" where
  "connect st now sid =
     st\<lparr> user_info := (user_info st)(sid \<mapsto>
            \<lparr> connected_at = now, workspace_id = None, user_name = None \<rparr>) \<rparr>"

text \<open>The handler \<open>disconnect\<close>, followed by the server closing the connection.\<close>

definition disconnect :: "SocketManager \<Rightarrow> string \<Rightarrow> SocketManager" where
  "disconnect st sid =
     (let w = current_workspace st sid;
          st1 = (if truthy_str w \<and> workspace_users st (the w) \<noteq> None then
                   emit (discard_user st (the w) sid)
                     \<lparr> ev_name = ''user_left'', ev_payload = UserLeft sid,
                       ev_room = the w, ev_skip_sid = Some sid \<rparr>
                 else st);
          st2 = (if user_info st1 sid \<noteq> None
                 then st1\<lparr> user_info := (user_info st1)(sid := None) \<rparr> else st1)
      in sio_close st2 sid)"

text \<open>
  \<open>join_workspace\<close>. The assignment \<open>self.user_info[sid]['workspace_id'] = workspace_id\<close>
  raises \<open>KeyError\<close> for a connection that \<open>connect\<close> has not registered, after the rooms
  have been changed.
\<close>

definition join_workspace ::
  "SocketManager \<Rightarrow> string \<Rightarrow> string \<Rightarrow> event_data \<Rightarrow> (error + response) \<times> SocketManager" where
  "join_workspace st now sid data =
     (let w = d_workspace_id data;
          uname = (case d_user_name data of None \<Rightarrow> ''Anonymous'' | Some n \<Rightarrow> n)
      in if \<not> truthy_str w then (Inr (ErrorResponse ''workspace_id required''), st)
         else
           let old_workspace = current_workspace st sid;
               st1 = (if truthy_str old_workspace
                         \<and> workspace_users st (the old_workspace) \<noteq> None
                      then leave_room (discard_user st (the old_workspace) sid) sid
                             (the old_workspace)
                      else st);
               st2 = enter_room st1 sid (the w);
               st3 = (if workspace_users st2 (the w) = None
                      then st2\<lparr> workspace_users := (workspace_users st2)(the w \<mapsto> {}) \<rparr>
                      else st2);
               st4 = add_user st3 (the w) sid
           in case user_info st4 sid of
                None \<Rightarrow> (Inl KeyError, st4)
              | Some info \<Rightarrow>
                  let st5 = st4\<lparr> user_info := (user_info st4)(sid \<mapsto>
                                   info\<lparr> workspace_id := w, user_name := Some uname \<rparr>) \<rparr>;
                      st6 = emit st5
                              \<lparr> ev_name = ''user_joined'',
                                ev_payload = UserJoined sid uname now,
                                ev_room = the w, ev_skip_sid = Some sid \<rparr>;
                      other_users =
                        (\<lambda>uid. (uid, name_of_user st6 uid))
                          ` (the (workspace_users st6 (the w)) - {sid})
                  in (Inr (JoinResponse (the w) other_users), st6))"

text \<open>
  \<open>leave_workspace\<close> takes the workspace from \<open>data\<close>, and sets the connection's
  \<open>workspace_id\<close> to \<open>None\<close> whatever \<open>data\<close> named.
\<close>

definition leave_workspace ::
  "SocketManager \<Rightarrow> string \<Rightarrow> event_data \<Rightarrow> (error + response) \<times> SocketManager" where
  "leave_workspace st sid data =
     (let w = d_workspace_id data;
          st1 = (if truthy_str w \<and> workspace_users st (the w) \<noteq> None then
                   emit (leave_room (discard_user st (the w) sid) sid (the w))
                     \<lparr> ev_name = ''user_left'', ev_payload = UserLeft sid,
                       ev_room = the w, ev_skip_sid = Some sid \<rparr>
                 else st)
      in case user_info st1 sid of
           None \<Rightarrow> (Inl KeyError, st1)
         | Some info \<Rightarrow>
             (Inr SuccessResponse,
              st1\<lparr> user_info := (user_info st1)(sid \<mapsto> info\<lparr> workspace_id := None \<rparr>) \<rparr>))"







text \<open>
  A sequence of events from clients, run from left to right. A handler that raises
  leaves the state as it had changed it.
\<close>

datatype client_event =
    Connect string
  | Disconnect string
  | Join string event_data
  | Leave string event_data

fun handle :: "string \<Rightarrow> SocketManager \<Rightarrow> client_event \<Rightarrow> SocketManager" where
  "handle now st (Connect sid) = connect st now sid"
| "handle now st (Disconnect sid) = disconnect st sid"
| "handle now st (Join sid data) = snd (join_workspace st now sid data)"
| "handle now st (Leave sid data) = snd (leave_workspace st sid data)"

definition run_events :: "string \<Rightarrow> SocketManager \<Rightarrow> client_event list \<Rightarrow> SocketManager" where
  "run_events now st evs = fold (\<lambda>ev s. handle now s ev) evs st"

text \<open>
  The member set of a workspace, empty for a workspace that \<open>workspace_users\<close> does not
  know; and a table of sets after \<open>sid\<close> has been taken out of the set at \<open>w\<close>, when the
  condition \<open>c\<close> holds.
\<close>

definition members :: "SocketManager \<Rightarrow> string \<Rightarrow> string set" where
  "members st w = (case workspace_users st w of None \<Rightarrow> {} | Some m \<Rightarrow> m)"

definition parted ::
  "(string \<Rightarrow> string set) \<Rightarrow> bool \<Rightarrow> string \<Rightarrow> string \<Rightarrow> string \<Rightarrow> string set" where
  "parted f c w sid = (if c then f(w := f w - {sid}) else f)"

subsection \<open>Concrete inputs\<close>

text \<open>
  \<open>PhysicsBody(id, x, y)\<close> with the defaults of the dataclass for the other fields.
\<close>

definition PhysicsBody_new :: "string \<Rightarrow> real \<Rightarrow> real \<Rightarrow> PhysicsBody" where
  "PhysicsBody_new bid px py =
     \<lparr> body_id = bid, pos_x = px, pos_y = py, vel_x = 0, vel_y = 0, mass = 1,
       body_radius = 40, embedding = None, cluster_id = None \<rparr>"



text \<open>
  Externals that fail at every call, with an arbitrary set order; an item at a position;
  a request body that names an algorithm the schema does not know.
\<close>

definition failing_externals :: externals where
  "failing_externals =
     \<lparr> fit_transform = (\<lambda>X. Inl ValueError),
       dbscan_fit_predict = (\<lambda>e m X. Inl ValueError),
       kmeans_fit_predict = (\<lambda>k X. Inl ValueError),
       set_iteration = remdups,
       extract_keywords = (\<lambda>its. Inl ValueError),
       capitalize = (\<lambda>w. w) \<rparr>"

definition item_at :: "string \<Rightarrow> real \<Rightarrow> real \<Rightarrow> item" where
  "item_at i px py =
     \<lparr> item_id = i, content = Some ''test'', title = None,
       position_x = Some px, position_y = Some py \<rparr>"

definition spectral_request :: ComputeClustersRequest where
  "spectral_request =
     \<lparr> req_algorithm = ''spectral'', req_eps = 1 / 2, req_min_samples = 2,
       req_n_clusters = None, use_llm_naming = False \<rparr>"

text \<open>Event data that names a workspace, and event data without any key.\<close>

definition empty_data :: event_data where
  "empty_data =
     \<lparr> d_workspace_id = None, d_user_name = None, d_item = None, d_item_id = None,
       d_updates = None, d_x = None, d_y = None \<rparr>"

definition workspace_data :: "string \<Rightarrow> event_data" where
  "workspace_data w = empty_data\<lparr> d_workspace_id := Some w, d_user_name := Some ''Alice'' \<rparr>"

text \<open>A manager with two connections in the workspace \<open>ws1\<close>.\<close>

definition two_in_ws1 :: SocketManager where
  "two_in_ws1 =
     \<lparr> workspace_users = [''ws1'' \<mapsto> {''c1'', ''c2''}],
       user_info =
         [''c1'' \<mapsto> \<lparr> connected_at = ''t0'', workspace_id = Some ''ws1'',
                        user_name = Some ''Alice'' \<rparr>,
          ''c2'' \<mapsto> \<lparr> connected_at = ''t0'', workspace_id = Some ''ws1'',
                        user_name = Some ''Bob'' \<rparr>],
       sio_rooms = (\<lambda>r. {})(''ws1'' := {''c1'', ''c2''}),
       emitted = [] \<rparr>"

text \<open>
  A connection joins \<open>ws1\<close>, sends a leave that names \<open>ws2\<close>, and joins \<open>ws2\<close>.
\<close>

definition stale_events :: "client_event list" where
  "stale_events =
     [Connect ''c1'', Join ''c1'' (workspace_data ''ws1''),
      Leave ''c1'' (workspace_data ''ws2''), Join ''c1'' (workspace_data ''ws2'')]"

text \<open>
  Externals that give every embedding the label 0, and the cluster of two items at
  \<open>(0, 0)\<close> and \<open>(6, 8)\<close>.
\<close>

definition one_label_externals :: externals where
  "one_label_externals =
     \<lparr> fit_transform = (\<lambda>X. Inr X),
       dbscan_fit_predict = (\<lambda>e m X. Inr (map (\<lambda>row. 0) X)),
       kmeans_fit_predict = (\<lambda>k X. Inr (map (\<lambda>row. 0) X)),
       set_iteration = remdups,
       extract_keywords = (\<lambda>its. Inr [''test'']),
       capitalize = (\<lambda>w. w) \<rparr>"

definition pair_cluster :: Cluster where
  "pair_cluster =
     \<lparr> cl_id = ''cluster-0'', name = ''test'', color = ''#FF6B6B'',
       center_x = 3, center_y = 4, radius = 105, item_ids = [''1'', ''2''],
       cl_keywords = [''test''] \<rparr>"

text \<open>
  Two bodies without embeddings, 50 apart on the x axis; the first body after its
  iteration of \<open>step\<close>, and the engine at that moment.
\<close>

definition two_body_a :: PhysicsBody where
  "two_body_a = PhysicsBody_new ''a'' 0 0"

definition two_body_b :: PhysicsBody where
  "two_body_b = PhysicsBody_new ''b'' 50 0"

definition two_body_engine :: PhysicsEngine where
  "two_body_engine = add_body (add_body PhysicsEngine_init two_body_a) two_body_b"

definition two_body_a_moved :: PhysicsBody where
  "two_body_a_moved = (PhysicsBody_new ''a'' (- (1536 / 125)) 0)\<lparr> vel_x := - (64 / 5) \<rparr>"

definition two_body_mid :: PhysicsEngine where
  "two_body_mid =
     two_body_engine\<lparr> bodies := [(''a'', two_body_a_moved), (''b'', two_body_b)] \<rparr>"

text \<open>
  A body whose embedding is a list of zeros and a body with a unit embedding, 200 apart.
\<close>

definition zero_body :: PhysicsBody where
  "zero_body = (PhysicsBody_new ''z'' 0 0)\<lparr> embedding := Some [0, 0] \<rparr>"

definition unit_body :: PhysicsBody where
  "unit_body = (PhysicsBody_new ''u'' 200 0)\<lparr> embedding := Some [1, 0] \<rparr>"

section \<open>Properties of the physics engine\<close>

subsection \<open>The velocity cap\<close>















subsection \<open>Symmetry of the pair force\<close>

lemma pair_geometry_swap:
  "pair_geometry body other = (d, ux, uy) \<Longrightarrow> pair_geometry other body = (d, - ux, - uy)"
proof -
  assume g: "pair_geometry body other = (d, ux, uy)"
  have sq: "(pos_x body - pos_x other) * (pos_x body - pos_x other)
              + (pos_y body - pos_y other) * (pos_y body - pos_y other)
          = (pos_x other - pos_x body) * (pos_x other - pos_x body)
              + (pos_y other - pos_y body) * (pos_y other - pos_y body)"
    by (simp add: algebra_simps)
  have neg: "(pos_x body - pos_x other) / c = - ((pos_x other - pos_x body) / c)"
    "(pos_y body - pos_y other) / c = - ((pos_y other - pos_y body) / c)" for c
    by (simp_all add: minus_divide_left)
  from g show ?thesis
    unfolding pair_geometry_def Let_def sq by (auto simp: neg)
qed

lemma dot_sum_commute:
  "sum_list (map (\<lambda>(a, b). a * b) (zip u v)) = sum_list (map (\<lambda>(a, b). a * b) (zip v u))"
  for u v :: "real list"
proof (induction u arbitrary: v)
  case Nil
  then show ?case by simp
next
  case (Cons a u)
  then show ?case by (cases v) (simp_all add: mult.commute)
qed

lemma np_dot_commute: "np_dot u v = np_dot v u"
  using dot_sum_commute [of u v] by (auto simp: np_dot_def)

lemma compute_similarity_commute: "compute_similarity e1 e2 = compute_similarity e2 e1"
  by (simp add: compute_similarity_def Let_def np_dot_commute)

lemma repulsion_swap:
  "repulsion eng body other = (rx, ry) \<Longrightarrow> repulsion eng other body = (- rx, - ry)"
proof -
  assume r: "repulsion eng body other = (rx, ry)"
  obtain d ux uy where g: "pair_geometry body other = (d, ux, uy)"
    by (cases "pair_geometry body other")
  from r show ?thesis
    by (auto simp: repulsion_def g pair_geometry_swap [OF g] Let_def split: if_splits)
qed

lemma attraction_swap:
  "attraction eng other body =
     (case attraction eng body other of Inl e \<Rightarrow> Inl e | Inr (ax, ay) \<Rightarrow> Inr (- ax, - ay))"
proof -
  obtain d ux uy where g: "pair_geometry body other = (d, ux, uy)"
    by (cases "pair_geometry body other")
  show ?thesis
    by (auto simp: attraction_def g pair_geometry_swap [OF g] Let_def
        compute_similarity_commute [of "the (embedding other)"]
        split: sum.splits)
qed

text \<open>
  Claim C4, as amended. On one state of the registry the force model is antisymmetric:
  the force that \<open>other\<close> receives from \<open>body\<close> is the negation of the force that \<open>body\<close>
  receives from \<open>other\<close>, and one evaluation raises exactly when the other does.
\<close>

theorem pair_force_opposite:
  "pair_force eng other body =
     (case pair_force eng body other of Inl e \<Rightarrow> Inl e | Inr (fx, fy) \<Rightarrow> Inr (- fx, - fy))"
proof -
  obtain rx ry where r: "repulsion eng body other = (rx, ry)"
    by (cases "repulsion eng body other")
  show ?thesis
    by (auto simp: pair_force_def r repulsion_swap [OF r] attraction_swap [of eng other body]
        split: sum.splits)
qed

lemma sqrt_2500: "sqrt 2500 = 50"
  using real_sqrt_abs2 [of 50] by simp

lemma sqrt_4096_25: "sqrt (4096 / 25) = 64 / 5"
  using real_sqrt_abs2 [of "64 / 5"] by simp

lemma sqrt_7786_125: "sqrt (60621796 / 15625) = 7786 / 125"
  using real_sqrt_abs2 [of "7786 / 125"] by simp

lemma two_body_forces_a: "compute_forces two_body_engine two_body_a = Inr (- 1000, 0)"
  by (simp add: compute_forces_def two_body_engine_def add_body_def PhysicsEngine_init_def
      two_body_a_def two_body_b_def PhysicsBody_new_def pair_force_def attraction_def
      repulsion_def pair_geometry_def truthy_def sqrt_2500)

lemma two_body_integrate_a:
  "integrate_body two_body_engine two_body_a (- 1000, 0) = Inr two_body_a_moved"
  by (simp add: integrate_body_def damped_velocity_def cap_velocity_def two_body_engine_def
      add_body_def PhysicsEngine_init_def two_body_a_def two_body_a_moved_def
      PhysicsBody_new_def sqrt_4096_25)

lemma two_body_bodies:
  "bodies two_body_engine = [(''a'', two_body_a), (''b'', two_body_b)]"
  by (simp add: two_body_engine_def add_body_def PhysicsEngine_init_def two_body_a_def
      two_body_b_def PhysicsBody_new_def)

text \<open>
  Within one call of \<open>step\<close> the two forces of a pair are not taken from the same
  positions. In \<open>two_body_engine\<close> the body \<open>a\<close> is pushed by \<open>(-1000, 0)\<close> and moved; the
  force on \<open>b\<close> is then computed in \<open>two_body_mid\<close>, from the new position of \<open>a\<close>, and is
  \<open>(754.24, 0)\<close>.
\<close>

theorem step_forces_counterexample:
  "compute_forces two_body_engine two_body_a = Inr (- 1000, 0)
   \<and> step two_body_engine
       = step_loop two_body_mid [(''b'', two_body_b)] [(''a'', update_of two_body_a_moved)]
   \<and> compute_forces two_body_mid two_body_b = Inr (18856 / 25, 0)"
proof -
  have mid: "two_body_engine\<lparr> bodies := AList.update ''a'' two_body_a_moved
               (bodies two_body_engine) \<rparr> = two_body_mid"
    by (simp add: two_body_mid_def two_body_bodies)
  have first: "step_loop two_body_engine ((''a'', two_body_a) # [(''b'', two_body_b)]) []
      = step_loop (two_body_engine\<lparr> bodies := AList.update ''a'' two_body_a_moved
                     (bodies two_body_engine) \<rparr>)
          [(''b'', two_body_b)] (AList.update ''a'' (update_of two_body_a_moved) [])"
    by (simp only: step_loop.simps two_body_forces_a two_body_integrate_a sum.case)
  have upd: "AList.update ''a'' (update_of two_body_a_moved) []
               = [(''a'', update_of two_body_a_moved)]"
    by simp
  have "step two_body_engine
          = step_loop two_body_engine ((''a'', two_body_a) # [(''b'', two_body_b)]) []"
    by (simp add: step_def two_body_bodies)
  also note first
  also have "step_loop (two_body_engine\<lparr> bodies := AList.update ''a'' two_body_a_moved
                     (bodies two_body_engine) \<rparr>)
          [(''b'', two_body_b)] (AList.update ''a'' (update_of two_body_a_moved) [])
       = step_loop two_body_mid [(''b'', two_body_b)] [(''a'', update_of two_body_a_moved)]"
    by (simp only: mid upd)
  finally have s: "step two_body_engine
       = step_loop two_body_mid [(''b'', two_body_b)] [(''a'', update_of two_body_a_moved)]" .
  have b: "compute_forces two_body_mid two_body_b = Inr (18856 / 25, 0)"
    by (simp add: compute_forces_def two_body_mid_def two_body_engine_def add_body_def
        PhysicsEngine_init_def two_body_a_moved_def two_body_b_def PhysicsBody_new_def
        pair_force_def attraction_def repulsion_def pair_geometry_def truthy_def
        sqrt_7786_125)
  from two_body_forces_a s b show ?thesis by simp
qed

subsection \<open>Bodies without a usable embedding\<close>

lemma linalg_norm_zero: "linalg_norm v = 0 \<Longrightarrow> \<forall>a \<in> set v. a = 0"
proof -
  assume "linalg_norm v = 0"
  then have "sum_list (map (\<lambda>a. a * a) v) = 0" by (simp add: linalg_norm_def)
  moreover have "\<And>x. x \<in> set (map (\<lambda>a. a * a) v) \<Longrightarrow> 0 \<le> x" by auto
  ultimately have "\<forall>x \<in> set (map (\<lambda>a. a * a) v). x = 0"
    by (simp only: sum_list_nonneg_eq_0_iff)
  then show ?thesis by simp
qed

lemma dot_zeros:
  "\<forall>a \<in> set u. a = 0 \<Longrightarrow> sum_list (map (\<lambda>(a, b). a * b) (zip u w)) = 0"
  for u w :: "real list"
proof (induction u arbitrary: w)
  case Nil
  then show ?case by simp
next
  case (Cons a u)
  then show ?case by (cases w) simp_all
qed

lemma zero_norm_similarity:
  assumes "linalg_norm v = 0" and "length w = length v"
  shows "compute_similarity v w = Inr (1 / 2)"
proof -
  from linalg_norm_zero [OF assms(1)]
  have "\<forall>a \<in> set (map (\<lambda>a. a / (linalg_norm v + 1 / 10 ^ 8)) v). a = 0" by simp
  from dot_zeros [OF this] assms(2) show ?thesis
    by (simp add: compute_similarity_def np_dot_def Let_def)
qed

text \<open>
  Claim C2, as amended. A body whose embedding is \<open>None\<close> or empty takes part in no
  attraction, in either direction, and counts as similarity 0 in a neighbour query. A body
  whose embedding is a non-empty list of norm zero has similarity \<open>1 / 2\<close> to every
  embedding of the same length; it takes part in no attraction when the threshold is at
  least \<open>1 / 2\<close> (it is \<open>0.7\<close>). In both cases the pair force is the repulsion alone.
\<close>

theorem degenerate_embedding_repulsion_only:
  assumes "\<not> truthy (embedding body)
         \<or> (\<exists>v. embedding body = Some v \<and> linalg_norm v = 0
                \<and> 1 / 2 \<le> similarity_threshold eng
                \<and> (\<forall>w. embedding other = Some w \<and> w \<noteq> [] \<longrightarrow> length w = length v))"
  shows "attraction eng body other = Inr (0, 0)
       \<and> attraction eng other body = Inr (0, 0)
       \<and> pair_force eng body other = Inr (repulsion eng body other)
       \<and> pair_force eng other body = Inr (repulsion eng other body)
       \<and> (\<not> truthy (embedding body) \<longrightarrow>
            neighbor_similarity body other = Inr 0 \<and> neighbor_similarity other body = Inr 0)
       \<and> (\<forall>v w. embedding body = Some v \<and> v \<noteq> [] \<and> linalg_norm v = 0
                 \<and> embedding other = Some w \<and> length w = length v \<longrightarrow>
            neighbor_similarity body other = Inr (1 / 2)
            \<and> neighbor_similarity other body = Inr (1 / 2))"
proof -
  have a1: "attraction eng body other = Inr (0, 0)"
    using assms
  proof
    assume "\<not> truthy (embedding body)"
    then show ?thesis by (simp add: attraction_def split: prod.splits)
  next
    assume "\<exists>v. embedding body = Some v \<and> linalg_norm v = 0
                \<and> 1 / 2 \<le> similarity_threshold eng
                \<and> (\<forall>w. embedding other = Some w \<and> w \<noteq> [] \<longrightarrow> length w = length v)"
    then obtain v where v: "embedding body = Some v" "linalg_norm v = 0"
      "1 / 2 \<le> similarity_threshold eng"
      "\<forall>w. embedding other = Some w \<and> w \<noteq> [] \<longrightarrow> length w = length v"
      by blast
    show ?thesis
    proof (cases "truthy (embedding other)")
      case False
      then show ?thesis by (simp add: attraction_def split: prod.splits)
    next
      case True
      then obtain w where w: "embedding other = Some w" "w \<noteq> []"
        by (auto simp: truthy_def split: option.splits)
      with v have "length w = length v" by blast
      from zero_norm_similarity [OF v(2) this] v w show ?thesis
        by (simp add: attraction_def split: prod.splits)
    qed
  qed
  have a2: "attraction eng other body = Inr (0, 0)"
    using attraction_swap [of eng other body] a1 by simp
  have p1: "pair_force eng body other = Inr (repulsion eng body other)"
    using a1 by (simp add: pair_force_def split: prod.splits)
  have p2: "pair_force eng other body = Inr (repulsion eng other body)"
    using a2 by (simp add: pair_force_def split: prod.splits)
  have n1: "\<not> truthy (embedding body) \<longrightarrow>
            neighbor_similarity body other = Inr 0 \<and> neighbor_similarity other body = Inr 0"
    by (simp add: neighbor_similarity_def)
  have n2: "\<forall>v w. embedding body = Some v \<and> v \<noteq> [] \<and> linalg_norm v = 0
                 \<and> embedding other = Some w \<and> length w = length v \<longrightarrow>
            neighbor_similarity body other = Inr (1 / 2)
            \<and> neighbor_similarity other body = Inr (1 / 2)"
    using zero_norm_similarity compute_similarity_commute
    by (auto simp: neighbor_similarity_def truthy_def)
  from a1 a2 p1 p2 n1 n2 show ?thesis by (intro conjI)
qed

lemma sqrt_40000: "sqrt 40000 = 200"
  using real_sqrt_abs2 [of 200] by simp

text \<open>
  The similarity of a zero vector to a unit vector is \<open>1 / 2\<close>, not 0, and under a
  threshold of \<open>0.4\<close> the zero vector is attracted.
\<close>

theorem zero_norm_similarity_counterexample:
  "compute_similarity [0, 0] [1, 0] = Inr (1 / 2)
   \<and> neighbor_similarity zero_body unit_body = Inr (1 / 2)
   \<and> attraction (PhysicsEngine_init\<lparr> similarity_threshold := 2 / 5 \<rparr>) zero_body unit_body
       = Inr (625, 0)"
proof -
  have n: "linalg_norm [0, 0] = 0" by (simp add: linalg_norm_def)
  have s: "compute_similarity [0, 0] [1, 0] = Inr (1 / 2)"
    using zero_norm_similarity [OF n, of "[1, 0]"] by simp
  have e: "embedding zero_body = Some [0, 0]" "embedding unit_body = Some [1, 0]"
    by (simp_all add: zero_body_def unit_body_def PhysicsBody_new_def)
  have ns: "neighbor_similarity zero_body unit_body = Inr (1 / 2)"
    using s by (simp add: neighbor_similarity_def e truthy_def)
  have g: "pair_geometry zero_body unit_body = (200, 1, 0)"
    by (simp add: pair_geometry_def zero_body_def unit_body_def PhysicsBody_new_def sqrt_40000)
  have a: "attraction (PhysicsEngine_init\<lparr> similarity_threshold := 2 / 5 \<rparr>)
             zero_body unit_body = Inr (625, 0)"
    using s by (simp add: attraction_def g e PhysicsEngine_init_def truthy_def)
  from s ns a show ?thesis by (intro conjI)
qed

theorem degenerate_embedding_repulsion_only_witness:
  "attraction PhysicsEngine_init zero_body unit_body = Inr (0, 0)
   \<and> attraction PhysicsEngine_init unit_body zero_body = Inr (0, 0)
   \<and> neighbor_similarity zero_body unit_body = Inr (1 / 2)"
proof -
  have n: "linalg_norm [0, 0] = 0" by (simp add: linalg_norm_def)
  have h: "\<not> truthy (embedding zero_body)
         \<or> (\<exists>v. embedding zero_body = Some v \<and> linalg_norm v = 0
                \<and> 1 / 2 \<le> similarity_threshold PhysicsEngine_init
                \<and> (\<forall>w. embedding unit_body = Some w \<and> w \<noteq> [] \<longrightarrow> length w = length v))"
    using n by (simp add: zero_body_def unit_body_def PhysicsBody_new_def PhysicsEngine_init_def)
  have e: "embedding zero_body = Some [0, 0]" "embedding unit_body = Some [1, 0]"
    by (simp_all add: zero_body_def unit_body_def PhysicsBody_new_def)
  from degenerate_embedding_repulsion_only [OF h] n e show ?thesis by simp
qed

subsection \<open>Nearest neighbours\<close>

lemma neighbors_loop_mem:
  assumes "neighbors_loop body bid maxd mins todo acc = Inr ns"
  shows "n \<in> set ns \<longleftrightarrow>
           n \<in> set acc
         \<or> (\<exists>k other s. (k, other) \<in> set todo \<and> k \<noteq> bid
               \<and> neighbor_distance body other \<le> maxd
               \<and> neighbor_similarity body other = Inr s \<and> mins \<le> s
               \<and> n = \<lparr> n_id = k, n_distance = neighbor_distance body other,
                        n_similarity = s, n_x = pos_x other, n_y = pos_y other \<rparr>)"
  using assms
proof (induction todo arbitrary: acc)
  case Nil
  then show ?case by simp
next
  case (Cons p todo)
  obtain k0 other0 where p: "p = (k0, other0)" by (cases p)
  let ?Q = "\<lambda>k other s. k \<noteq> bid
               \<and> neighbor_distance body other \<le> maxd
               \<and> neighbor_similarity body other = Inr s \<and> mins \<le> s
               \<and> n = \<lparr> n_id = k, n_distance = neighbor_distance body other,
                        n_similarity = s, n_x = pos_x other, n_y = pos_y other \<rparr>"
  consider (skip) "k0 = bid" | (far) "k0 \<noteq> bid" "neighbor_distance body other0 > maxd"
    | (low) s0 where "k0 \<noteq> bid" "\<not> neighbor_distance body other0 > maxd"
        "neighbor_similarity body other0 = Inr s0" "\<not> mins \<le> s0"
    | (take) s0 where "k0 \<noteq> bid" "\<not> neighbor_distance body other0 > maxd"
        "neighbor_similarity body other0 = Inr s0" "mins \<le> s0"
    | (err) e where "k0 \<noteq> bid" "\<not> neighbor_distance body other0 > maxd"
        "neighbor_similarity body other0 = Inl e"
    by (cases "neighbor_similarity body other0") force+
  then show ?case
  proof cases
    case skip
    with Cons.prems p have "neighbors_loop body bid maxd mins todo acc = Inr ns" by simp
    from Cons.IH [OF this] skip p show ?thesis by auto
  next
    case far
    with Cons.prems p have "neighbors_loop body bid maxd mins todo acc = Inr ns"
      by (simp add: Let_def)
    from Cons.IH [OF this] far p show ?thesis by auto
  next
    case low
    with Cons.prems p have "neighbors_loop body bid maxd mins todo acc = Inr ns"
      by (simp add: Let_def)
    from Cons.IH [OF this] low p show ?thesis by auto
  next
    case take
    let ?e = "\<lparr> n_id = k0, n_distance = neighbor_distance body other0,
                 n_similarity = s0, n_x = pos_x other0, n_y = pos_y other0 \<rparr>"
    from take Cons.prems p
    have "neighbors_loop body bid maxd mins todo (acc @ [?e]) = Inr ns"
      by (simp add: Let_def)
    from Cons.IH [OF this] take p show ?thesis by auto
  next
    case err
    with Cons.prems p show ?thesis by (simp add: Let_def)
  qed
qed

lemma sort_key_neg_descending:
  "sorted_wrt (\<lambda>m n. n_similarity n \<le> n_similarity m) (sort_key (\<lambda>n. - n_similarity n) ns)"
proof -
  have "sorted (map (\<lambda>n. - n_similarity n) (sort_key (\<lambda>n. - n_similarity n) ns))"
    by (rule sorted_sort_key)
  then show ?thesis by (simp add: sorted_map)
qed

text \<open>
  Claim C5, as amended. For an id that is not in the registry \<open>get_nearest_neighbors\<close>
  returns the empty list. For an id that is, a returned list never holds the id itself,
  holds exactly the entries of the other bodies whose distance is at most
  \<open>max_distance\<close> and whose similarity is at least \<open>min_similarity\<close> (equality included),
  and is sorted by descending similarity.
\<close>

theorem nearest_neighbors_exact:
  "(map_of (bodies eng) bid = None \<longrightarrow>
      get_nearest_neighbors eng bid max_distance min_similarity = Inr [])
   \<and> (\<forall>body ns. map_of (bodies eng) bid = Some body
         \<and> get_nearest_neighbors eng bid max_distance min_similarity = Inr ns \<longrightarrow>
         bid \<notin> n_id ` set ns
       \<and> set ns =
           {\<lparr> n_id = k, n_distance = neighbor_distance body other, n_similarity = s,
              n_x = pos_x other, n_y = pos_y other \<rparr> | k other s.
              (k, other) \<in> set (bodies eng) \<and> k \<noteq> bid
              \<and> neighbor_distance body other \<le> max_distance
              \<and> neighbor_similarity body other = Inr s \<and> min_similarity \<le> s}
       \<and> sorted_wrt (\<lambda>m n. n_similarity n \<le> n_similarity m) ns)"
proof (intro conjI allI impI)
  assume "map_of (bodies eng) bid = None"
  then show "get_nearest_neighbors eng bid max_distance min_similarity = Inr []"
    by (simp add: get_nearest_neighbors_def)
next
  fix body ns
  assume a: "map_of (bodies eng) bid = Some body
         \<and> get_nearest_neighbors eng bid max_distance min_similarity = Inr ns"
  then obtain ns0 where
    loop: "neighbors_loop body bid max_distance min_similarity (bodies eng) [] = Inr ns0"
    and ns: "ns = sort_key (\<lambda>n. - n_similarity n) ns0"
    by (auto simp: get_nearest_neighbors_def split: sum.splits)
  have mem: "n \<in> set ns \<longleftrightarrow>
      (\<exists>k other s. (k, other) \<in> set (bodies eng) \<and> k \<noteq> bid
               \<and> neighbor_distance body other \<le> max_distance
               \<and> neighbor_similarity body other = Inr s \<and> min_similarity \<le> s
               \<and> n = \<lparr> n_id = k, n_distance = neighbor_distance body other,
                        n_similarity = s, n_x = pos_x other, n_y = pos_y other \<rparr>)" for n
    using neighbors_loop_mem [OF loop, of n] ns by simp
  show "bid \<notin> n_id ` set ns"
  proof
    assume "bid \<in> n_id ` set ns"
    then obtain n where "n \<in> set ns" "n_id n = bid" by auto
    with mem [of n] show False by auto
  qed
  show "set ns =
           {\<lparr> n_id = k, n_distance = neighbor_distance body other, n_similarity = s,
              n_x = pos_x other, n_y = pos_y other \<rparr> | k other s.
              (k, other) \<in> set (bodies eng) \<and> k \<noteq> bid
              \<and> neighbor_distance body other \<le> max_distance
              \<and> neighbor_similarity body other = Inr s \<and> min_similarity \<le> s}"
  proof (rule set_eqI)
    fix n
    show "n \<in> set ns \<longleftrightarrow> n \<in> {\<lparr> n_id = k, n_distance = neighbor_distance body other,
              n_similarity = s, n_x = pos_x other, n_y = pos_y other \<rparr> | k other s.
              (k, other) \<in> set (bodies eng) \<and> k \<noteq> bid
              \<and> neighbor_distance body other \<le> max_distance
              \<and> neighbor_similarity body other = Inr s \<and> min_similarity \<le> s}"
      unfolding mem [of n] by blast
  qed
  show "sorted_wrt (\<lambda>m n. n_similarity n \<le> n_similarity m) ns"
    unfolding ns by (rule sort_key_neg_descending)
qed

text \<open>
  With \<open>min_similarity = 0\<close> the body \<open>b\<close>, whose similarity 0 does not exceed it, is
  returned.
\<close>

theorem nearest_neighbors_counterexample:
  "get_nearest_neighbors two_body_engine ''a'' 500 0
     = Inr [\<lparr> n_id = ''b'', n_distance = 50, n_similarity = 0, n_x = 50, n_y = 0 \<rparr>]"
proof -
  have d: "neighbor_distance two_body_a two_body_b = 50"
    by (simp add: neighbor_distance_def two_body_a_def two_body_b_def PhysicsBody_new_def
        sqrt_2500)
  have s: "neighbor_similarity two_body_a two_body_b = Inr 0"
    by (simp add: neighbor_similarity_def two_body_a_def PhysicsBody_new_def truthy_def)
  have p: "pos_x two_body_b = 50" "pos_y two_body_b = 0"
    by (simp_all add: two_body_b_def PhysicsBody_new_def)
  show ?thesis
    by (simp add: get_nearest_neighbors_def two_body_bodies d s p)
qed

theorem nearest_neighbors_exact_witness:
  "get_nearest_neighbors two_body_engine ''zz'' 500 (3 / 5) = Inr []
   \<and> get_nearest_neighbors two_body_engine ''b'' 500 0
       = Inr [\<lparr> n_id = ''a'', n_distance = 50, n_similarity = 0, n_x = 0, n_y = 0 \<rparr>]
   \<and> ''b'' \<notin> n_id ` set [\<lparr> n_id = ''a'', n_distance = 50, n_similarity = 0, n_x = 0, n_y = 0 \<rparr>]"
proof -
  have none: "map_of (bodies two_body_engine) ''zz'' = None"
    by (simp add: two_body_bodies)
  have some: "map_of (bodies two_body_engine) ''b'' = Some two_body_b"
    by (simp add: two_body_bodies)
  have d: "neighbor_distance two_body_b two_body_a = 50"
    by (simp add: neighbor_distance_def two_body_a_def two_body_b_def PhysicsBody_new_def
        sqrt_2500)
  have s: "neighbor_similarity two_body_b two_body_a = Inr 0"
    by (simp add: neighbor_similarity_def two_body_a_def PhysicsBody_new_def truthy_def)
  have p: "pos_x two_body_a = 0" "pos_y two_body_a = 0"
    by (simp_all add: two_body_a_def PhysicsBody_new_def)
  have run: "get_nearest_neighbors two_body_engine ''b'' 500 0
       = Inr [\<lparr> n_id = ''a'', n_distance = 50, n_similarity = 0, n_x = 0, n_y = 0 \<rparr>]"
    by (simp add: get_nearest_neighbors_def two_body_bodies d s p)
  from nearest_neighbors_exact [of two_body_engine "''zz''" 500 "3 / 5"] none
  have absent: "get_nearest_neighbors two_body_engine ''zz'' 500 (3 / 5) = Inr []"
    by blast
  from nearest_neighbors_exact [of two_body_engine "''b''" 500 0] some run
  have self: "''b'' \<notin> n_id ` set [\<lparr> n_id = ''a'', n_distance = 50, n_similarity = 0,
                                  n_x = 0, n_y = 0 \<rparr>]"
    by blast
  from absent run self show ?thesis by (intro conjI)
qed

section \<open>Properties of the clustering service\<close>

text \<open>
  Claim C6. With fewer than two items, or fewer than two embeddings, \<open>compute_clusters\<close>
  returns the empty list; it does not raise, whatever the external functions do.
\<close>

theorem compute_clusters_few_items:
  "length items < 2 \<or> length embeddings < 2 \<Longrightarrow>
     compute_clusters ext svc items embeddings = Inr []"
  by (simp add: compute_clusters_def)

theorem compute_clusters_few_items_witness:
  "compute_clusters failing_externals ClusteringService_default
     [item_at ''1'' 0 0] [[1 / 10, 2 / 10, 3 / 10]] = Inr []"
  using compute_clusters_few_items
          [of "[item_at ''1'' 0 0]" "[[1 / 10, 2 / 10, 3 / 10]]"
              failing_externals ClusteringService_default]
  by simp

text \<open>
  The service itself does not check the name of the algorithm: every name other than
  \<open>dbscan\<close> runs K-means. The check is the pattern of the request schema.
\<close>

lemma compute_clusters_other_name:
  assumes "algorithm svc \<noteq> ''dbscan''" and "2 \<le> length items" and "2 \<le> length embeddings"
    and "fit_transform ext embeddings = Inr X"
    and "kmeans_cluster ext svc X (length items) = Inr labels"
  shows "compute_clusters ext svc items embeddings = build_clusters ext items labels"
  using assms by (simp add: compute_clusters_def)

text \<open>
  Claim C3. A compute request whose algorithm is neither \<open>dbscan\<close> nor \<open>kmeans\<close> fails
  the validation of \<open>ComputeClustersRequest\<close>, and the route answers with that error
  whatever the scaler and the clustering functions are: none of them is consulted.
\<close>

theorem unknown_algorithm_rejected:
  assumes "req_algorithm body \<noteq> ''dbscan''" and "req_algorithm body \<noteq> ''kmeans''"
  shows "validate_ComputeClustersRequest body = Inl RequestValidationError
       \<and> compute_clusters_route ext body items embeddings = Inl RequestValidationError"
  using assms by (simp add: validate_ComputeClustersRequest_def compute_clusters_route_def)

theorem unknown_algorithm_rejected_witness:
  "compute_clusters_route failing_externals spectral_request
     [item_at ''1'' 0 0, item_at ''2'' 6 8] [[1, 0], [0, 1]] = Inl RequestValidationError"
proof -
  have h1: "req_algorithm spectral_request \<noteq> ''dbscan''"
    by (simp add: spectral_request_def)
  have h2: "req_algorithm spectral_request \<noteq> ''kmeans''"
    by (simp add: spectral_request_def)
  from unknown_algorithm_rejected [OF h1 h2] show ?thesis by simp
qed

subsection \<open>Cluster geometry\<close>

lemma py_max_Max: "py_max ds = Inr m \<Longrightarrow> ds \<noteq> [] \<and> m = Max (set ds)"
proof (cases ds)
  case Nil
  assume "py_max ds = Inr m"
  with Nil show ?thesis by (simp add: py_max_def)
next
  case (Cons d ds')
  assume "py_max ds = Inr m"
  with Cons Max.set_eq_fold [of d ds'] show ?thesis by (simp add: py_max_def)
qed

lemma cluster_geometry_result:
  assumes "cluster_geometry ps = Inr (cx, cy, r)"
  shows "ps \<noteq> []"
    and "cx = sum_list (map fst ps) / real (length ps)"
    and "cy = sum_list (map snd ps) / real (length ps)"
    and "r = Max ((\<lambda>p. sqrt ((fst p - cx)\<^sup>2 + (snd p - cy)\<^sup>2)) ` set ps) + 100"
  using assms
  by (auto simp: cluster_geometry_def Let_def split: if_splits sum.splits dest!: py_max_Max)

lemma build_clusters_loop_all:
  assumes "build_clusters_loop ext items labels todo acc = Inr clusters"
    and "\<forall>c \<in> set acc. P c"
    and step: "\<And>label members cx cy r c.
            cluster_members items labels label = Inr members \<Longrightarrow> 2 \<le> length members \<Longrightarrow>
            cluster_geometry (map item_position members) = Inr (cx, cy, r) \<Longrightarrow>
            item_ids c = map item_id members \<Longrightarrow> center_x c = cx \<Longrightarrow> center_y c = cy \<Longrightarrow>
            radius c = r \<Longrightarrow> P c"
  shows "\<forall>c \<in> set clusters. P c"
  using assms(1,2)
proof (induction todo arbitrary: acc)
  case Nil
  then show ?case by simp
next
  case (Cons p todo)
  obtain label_idx label where p: "p = (label_idx, label)" by (cases p)
  show ?case
  proof (cases "label = - 1")
    case True
    with Cons p show ?thesis by simp
  next
    case False
    with Cons.prems(1) p obtain members where
      m: "cluster_members items labels label = Inr members"
      by (auto split: sum.splits)
    show ?thesis
    proof (cases "length members < 2")
      case True
      with Cons p False m show ?thesis by simp
    next
      case big: False
      with Cons.prems(1) p False m obtain cx cy r kws where
        g: "cluster_geometry (map item_position members) = Inr (cx, cy, r)" and
        rest0: "build_clusters_loop ext items labels todo
                 (acc @ [\<lparr> cl_id = ''cluster-'' @ str_int label,
                            name = generate_cluster_name ext kws,
                            color = CLUSTER_COLORS ! (label_idx mod length CLUSTER_COLORS),
                            center_x = cx, center_y = cy, radius = r,
                            item_ids = map item_id members,
                            cl_keywords = take 5 kws \<rparr>]) = Inr clusters"
        by (auto split: sum.splits)
      define c where "c = \<lparr> cl_id = ''cluster-'' @ str_int label,
                            name = generate_cluster_name ext kws,
                            color = CLUSTER_COLORS ! (label_idx mod length CLUSTER_COLORS),
                            center_x = cx, center_y = cy, radius = r,
                            item_ids = map item_id members,
                            cl_keywords = take 5 kws \<rparr>"
      have c: "item_ids c = map item_id members" "center_x c = cx" "center_y c = cy"
           "radius c = r"
        by (simp_all add: c_def)
      from rest0 have rest: "build_clusters_loop ext items labels todo (acc @ [c]) = Inr clusters"
        by (simp add: c_def)
      from big have "2 \<le> length members" by simp
      from step [OF m this g c] have "P c" .
      with Cons.prems(2) have "\<forall>c' \<in> set (acc @ [c]). P c'" by simp
      from Cons.IH [OF rest this] show ?thesis .
    qed
  qed
qed

text \<open>
  Claim C9. Every cluster \<open>c\<close> that \<open>compute_clusters\<close> returns was built from the items
  \<open>members\<close> that carry one label: its centre is the mean of their canvas positions and
  its radius is the largest distance of a member from that centre plus 100, so no member
  is farther from the centre than the radius.
\<close>

theorem cluster_radius:
  assumes "compute_clusters ext svc items embeddings = Inr clusters" and "c \<in> set clusters"
  shows "\<exists>labels label members.
        cluster_members items labels label = Inr members
      \<and> 2 \<le> length members
      \<and> item_ids c = map item_id members
      \<and> center_x c = sum_list (map (\<lambda>it. fst (item_position it)) members) / real (length members)
      \<and> center_y c = sum_list (map (\<lambda>it. snd (item_position it)) members) / real (length members)
      \<and> radius c =
          Max ((\<lambda>it. sqrt ((fst (item_position it) - center_x c)\<^sup>2
                          + (snd (item_position it) - center_y c)\<^sup>2)) ` set members) + 100
      \<and> (\<forall>it \<in> set members.
            sqrt ((fst (item_position it) - center_x c)\<^sup>2
                  + (snd (item_position it) - center_y c)\<^sup>2) \<le> radius c)"
proof -
  let ?dist = "\<lambda>c it. sqrt ((fst (item_position it) - center_x c)\<^sup>2
                          + (snd (item_position it) - center_y c)\<^sup>2)"
  let ?P = "\<lambda>labels c. \<exists>label members.
        cluster_members items labels label = Inr members
      \<and> 2 \<le> length members
      \<and> item_ids c = map item_id members
      \<and> center_x c = sum_list (map (\<lambda>it. fst (item_position it)) members) / real (length members)
      \<and> center_y c = sum_list (map (\<lambda>it. snd (item_position it)) members) / real (length members)
      \<and> radius c = Max (?dist c ` set members) + 100"
  from assms obtain labels where b: "build_clusters ext items labels = Inr clusters"
    by (auto simp: compute_clusters_def split: if_splits sum.splits)
  then have loop: "build_clusters_loop ext items labels
               (enumerate 0 (set_iteration ext labels)) [] = Inr clusters"
    by (simp add: build_clusters_def)
  have "\<forall>c \<in> set clusters. ?P labels c"
  proof (rule build_clusters_loop_all [OF loop])
    show "\<forall>c \<in> set []. ?P labels c" by simp
  next
    fix label members cx cy r and c :: Cluster
    assume m: "cluster_members items labels label = Inr members" "2 \<le> length members"
      and g: "cluster_geometry (map item_position members) = Inr (cx, cy, r)"
      and c: "item_ids c = map item_id members" "center_x c = cx" "center_y c = cy"
        "radius c = r"
    from cluster_geometry_result(2-4) [OF g] m c show "?P labels c"
      by (intro exI [of _ label] exI [of _ members]) (simp add: comp_def image_image)
  qed
  with assms(2) obtain label members where
    m: "cluster_members items labels label = Inr members" "2 \<le> length members"
       "item_ids c = map item_id members"
       "center_x c = sum_list (map (\<lambda>it. fst (item_position it)) members) / real (length members)"
       "center_y c = sum_list (map (\<lambda>it. snd (item_position it)) members) / real (length members)"
    and r: "radius c = Max (?dist c ` set members) + 100"
    by blast
  have "?dist c it \<le> radius c" if "it \<in> set members" for it
  proof -
    have "?dist c it \<le> Max (?dist c ` set members)"
      using that by (intro Max_ge) auto
    with r show ?thesis by simp
  qed
  with m r show ?thesis by blast
qed

lemma sqrt_25: "sqrt 25 = 5"
  using real_sqrt_abs2 [of 5] by simp

theorem cluster_radius_witness:
  "compute_clusters one_label_externals (ClusteringService_default\<lparr> algorithm := ''kmeans'' \<rparr>)
     [item_at ''1'' 0 0, item_at ''2'' 6 8] [[1], [1]] = Inr [pair_cluster]
   \<and> (\<exists>labels label members.
        cluster_members [item_at ''1'' 0 0, item_at ''2'' 6 8] labels label = Inr members
      \<and> radius pair_cluster =
          Max ((\<lambda>it. sqrt ((fst (item_position it) - center_x pair_cluster)\<^sup>2
                          + (snd (item_position it) - center_y pair_cluster)\<^sup>2)) ` set members)
            + 100)"
proof -
  have h1: "compute_clusters one_label_externals
      (ClusteringService_default\<lparr> algorithm := ''kmeans'' \<rparr>)
     [item_at ''1'' 0 0, item_at ''2'' 6 8] [[1], [1]] = Inr [pair_cluster]"
    by (simp add: compute_clusters_def one_label_externals_def ClusteringService_default_def
        kmeans_cluster_def build_clusters_def cluster_members_def item_at_def
        cluster_geometry_def item_position_def py_max_def generate_cluster_name_def
        CLUSTER_COLORS_def str_int_def pair_cluster_def sqrt_25)
  have h2: "pair_cluster \<in> set [pair_cluster]" by simp
  from cluster_radius [OF h1 h2] h1 show ?thesis by blast
qed

section \<open>Properties of the socket manager\<close>

text \<open>
  Claim C10. \<open>join_workspace\<close> with data that has no \<open>workspace_id\<close> (or an empty one)
  returns \<open>{'error': 'workspace_id required'}\<close> and the state is the one before the call:
  the member sets, the rooms of the server, the user information and the emissions.
\<close>

theorem join_workspace_requires_workspace_id:
  assumes "d_workspace_id data = None \<or> d_workspace_id data = Some []"
  shows "join_workspace st now sid data = (Inr (ErrorResponse ''workspace_id required''), st)"
  using assms by (auto simp: join_workspace_def truthy_str_def)

theorem join_workspace_requires_workspace_id_witness:
  "join_workspace two_in_ws1 ''t1'' ''c1'' empty_data
     = (Inr (ErrorResponse ''workspace_id required''), two_in_ws1)"
proof -
  have h: "d_workspace_id empty_data = None \<or> d_workspace_id empty_data = Some []"
    by (simp add: empty_data_def)
  from join_workspace_requires_workspace_id [OF h] show ?thesis .
qed



subsection \<open>One workspace per connection\<close>

text \<open>A join by a connection that is in no workspace, field by field.\<close>

lemma join_workspace_first:
  assumes "user_info st sid = Some info" and "workspace_id info = None"
    and "d_workspace_id data = Some w" and "w \<noteq> []"
  shows "workspace_users (snd (join_workspace st now sid data))
           = (workspace_users st)(w \<mapsto>
               insert sid (case workspace_users st w of None \<Rightarrow> {} | Some m \<Rightarrow> m))"
    and "user_info (snd (join_workspace st now sid data))
           = (user_info st)(sid \<mapsto> info\<lparr> workspace_id := Some w,
                user_name := Some (case d_user_name data of None \<Rightarrow> ''Anonymous''
                                   | Some n \<Rightarrow> n) \<rparr>)"
    and "sio_rooms (snd (join_workspace st now sid data))
           = (sio_rooms st)(w := insert sid (sio_rooms st w))"
  using assms
  by (auto simp: join_workspace_def truthy_str_def current_workspace_def enter_room_def
      add_user_def emit_def Let_def split: option.splits)

text \<open>
  A leave that names a workspace without a member set changes no room, and clears the
  connection's \<open>workspace_id\<close>.
\<close>

lemma leave_workspace_unknown:
  assumes "user_info st sid = Some info"
    and "d_workspace_id data = Some w" and "workspace_users st w = None"
  shows "workspace_users (snd (leave_workspace st sid data)) = workspace_users st"
    and "user_info (snd (leave_workspace st sid data))
           = (user_info st)(sid \<mapsto> info\<lparr> workspace_id := None \<rparr>)"
    and "sio_rooms (snd (leave_workspace st sid data)) = sio_rooms st"
  using assms by (auto simp: leave_workspace_def Let_def)

text \<open>
  Claim C7, at the events \<open>stale_events\<close>: after the leave that named \<open>ws2\<close>, the
  connection is still in the member set and in the room of \<open>ws1\<close>, and the second join
  puts it into those of \<open>ws2\<close> as well.
\<close>

theorem leave_other_workspace_keeps_membership:
  "workspace_users (run_events ''t0'' SocketManager_init stale_events) ''ws1'' = Some {''c1''}
   \<and> workspace_users (run_events ''t0'' SocketManager_init stale_events) ''ws2'' = Some {''c1''}
   \<and> sio_rooms (run_events ''t0'' SocketManager_init stale_events) ''ws1'' = {''c1''}
   \<and> sio_rooms (run_events ''t0'' SocketManager_init stale_events) ''ws2'' = {''c1''}"
proof -
  define s1 where "s1 = connect SocketManager_init ''t0'' ''c1''"
  define s2 where "s2 = snd (join_workspace s1 ''t0'' ''c1'' (workspace_data ''ws1''))"
  define s3 where "s3 = snd (leave_workspace s2 ''c1'' (workspace_data ''ws2''))"
  define s4 where "s4 = snd (join_workspace s3 ''t0'' ''c1'' (workspace_data ''ws2''))"
  have run: "run_events ''t0'' SocketManager_init stale_events = s4"
    by (simp add: run_events_def stale_events_def s1_def s2_def s3_def s4_def)
  have d: "d_workspace_id (workspace_data w) = Some w"
    "d_user_name (workspace_data w) = Some ''Alice''" for w
    by (simp_all add: workspace_data_def empty_data_def)
  have u1: "user_info s1 ''c1''
              = Some \<lparr> connected_at = ''t0'', workspace_id = None, user_name = None \<rparr>"
    and w1: "workspace_users s1 = Map.empty" and r1: "sio_rooms s1 = (\<lambda>r. {})"
    by (simp_all add: s1_def connect_def SocketManager_init_def)
  note j2 = join_workspace_first [OF u1 _ d(1), of "''ws1''" "''t0''", folded s2_def, simplified]
  have w2: "workspace_users s2 = [''ws1'' \<mapsto> {''c1''}]"
    and r2: "sio_rooms s2 = (\<lambda>r. {})(''ws1'' := {''c1''})"
    and u2: "user_info s2 ''c1'' = Some \<lparr> connected_at = ''t0'', workspace_id = Some ''ws1'',
                user_name = Some ''Alice'' \<rparr>"
    using j2 by (simp_all add: w1 r1 d)
  note l3 = leave_workspace_unknown [OF u2 d(1), of "''ws2''", folded s3_def]
  have w3: "workspace_users s3 = [''ws1'' \<mapsto> {''c1''}]"
    and r3: "sio_rooms s3 = (\<lambda>r. {})(''ws1'' := {''c1''})"
    and u3: "user_info s3 ''c1'' = Some \<lparr> connected_at = ''t0'', workspace_id = None,
                user_name = Some ''Alice'' \<rparr>"
    using l3 by (simp_all add: w2 r2)
  note j4 = join_workspace_first [OF u3 _ d(1), of "''ws2''" "''t0''", folded s4_def, simplified]
  have "workspace_users s4 = [''ws1'' \<mapsto> {''c1''}, ''ws2'' \<mapsto> {''c1''}]"
    and "sio_rooms s4 = (\<lambda>r. {})(''ws1'' := {''c1''}, ''ws2'' := {''c1''})"
    using j4 by (simp_all add: w3 r3)
  then show ?thesis by (simp add: run)
qed

text \<open>
  A join by a connection that is in another workspace takes it out of that workspace:
  \<open>join(c, ws1)\<close> followed by \<open>join(c, ws2)\<close> leaves \<open>c\<close> out of the members of \<open>ws1\<close>.
\<close>

lemma join_workspace_leaves_previous:
  assumes "user_info st sid = Some info" and "workspace_id info = Some w1" and "w1 \<noteq> []"
    and "workspace_users st w1 = Some m"
    and "d_workspace_id data = Some w2" and "w2 \<noteq> []" and "w2 \<noteq> w1"
  shows "workspace_users (snd (join_workspace st now sid data)) w1 = Some (m - {sid})"
    and "sid \<in> members (snd (join_workspace st now sid data)) w2"
    and "sio_rooms (snd (join_workspace st now sid data)) w1 = sio_rooms st w1 - {sid}"
  using assms
  by (auto simp: join_workspace_def truthy_str_def current_workspace_def enter_room_def
      leave_room_def add_user_def discard_user_def emit_def members_def Let_def
      split: option.splits)

subsection \<open>Rooms of the server and member sets\<close>

text \<open>
  What each handler does to the rooms of the server and to the member sets. From a
  manager without connections, every connection in a room of the server is in the member
  set of that workspace, so the recipients of a relay are members of the sender's
  workspace.
\<close>

lemma sio_rooms_prims:
  "sio_rooms (discard_user st w sid) = sio_rooms st"
  "sio_rooms (add_user st w sid) = sio_rooms st"
  "sio_rooms (emit st em) = sio_rooms st"
  "sio_rooms (enter_room st sid w) = (sio_rooms st)(w := insert sid (sio_rooms st w))"
  "sio_rooms (leave_room st sid w) = (sio_rooms st)(w := sio_rooms st w - {sid})"
  by (simp_all add: discard_user_def add_user_def emit_def enter_room_def leave_room_def)

lemma members_prims:
  "members (emit st em) = members st"
  "members (enter_room st sid w) = members st"
  "members (leave_room st sid w) = members st"
  "members (st\<lparr> user_info := ui \<rparr>) = members st"
  by (simp_all add: members_def emit_def enter_room_def leave_room_def fun_eq_iff)

lemma members_discard_user:
  "workspace_users st w \<noteq> None \<Longrightarrow>
     members (discard_user st w sid) = (members st)(w := members st w - {sid})"
  by (auto simp: members_def discard_user_def fun_eq_iff)

lemma members_add_user:
  "members (add_user (if workspace_users st w = None
                      then st\<lparr> workspace_users := (workspace_users st)(w \<mapsto> {}) \<rparr> else st) w sid)
     = (members st)(w := insert sid (members st w))"
  by (auto simp: members_def add_user_def fun_eq_iff)

lemma sio_rooms_add_user:
  "sio_rooms (add_user (if workspace_users st w = None
                      then st\<lparr> workspace_users := (workspace_users st)(w \<mapsto> {}) \<rparr> else st) w sid)
     = sio_rooms st"
  by (simp add: add_user_def)

lemma leave_workspace_frames:
  "sio_rooms (snd (leave_workspace st sid data))
     = parted (sio_rooms st)
         (truthy_str (d_workspace_id data) \<and> workspace_users st (the (d_workspace_id data)) \<noteq> None)
         (the (d_workspace_id data)) sid"
  "members (snd (leave_workspace st sid data))
     = parted (members st)
         (truthy_str (d_workspace_id data) \<and> workspace_users st (the (d_workspace_id data)) \<noteq> None)
         (the (d_workspace_id data)) sid"
proof -
  let ?w = "the (d_workspace_id data)"
  let ?c = "truthy_str (d_workspace_id data) \<and> workspace_users st ?w \<noteq> None"
  define st1 where "st1 = (if ?c then
                   emit (leave_room (discard_user st ?w sid) sid ?w)
                     \<lparr> ev_name = ''user_left'', ev_payload = UserLeft sid,
                       ev_room = ?w, ev_skip_sid = Some sid \<rparr>
                 else st)"
  have "snd (leave_workspace st sid data) = st1
      \<or> (\<exists>ui. snd (leave_workspace st sid data) = st1\<lparr> user_info := ui \<rparr>)"
    unfolding leave_workspace_def Let_def st1_def [symmetric]
    by (cases "user_info st1 sid") auto
  then have fr: "sio_rooms (snd (leave_workspace st sid data)) = sio_rooms st1"
    "members (snd (leave_workspace st sid data)) = members st1"
    by (auto simp: members_prims)
  have "sio_rooms st1 = parted (sio_rooms st) ?c ?w sid"
    by (auto simp: st1_def parted_def sio_rooms_prims)
  moreover have "members st1 = parted (members st) ?c ?w sid"
    by (auto simp: st1_def parted_def members_prims members_discard_user)
  ultimately show
    "sio_rooms (snd (leave_workspace st sid data)) = parted (sio_rooms st) ?c ?w sid"
    "members (snd (leave_workspace st sid data)) = parted (members st) ?c ?w sid"
    using fr by simp_all
qed


lemma sio_close_frames:
  "sio_rooms (sio_close st sid) = (\<lambda>w. sio_rooms st w - {sid})"
  "members (sio_close st sid) = members st"
  by (simp_all add: sio_close_def members_def fun_eq_iff)

lemma disconnect_frames:
  "sio_rooms (disconnect st sid) = (\<lambda>w. sio_rooms st w - {sid})"
  "members (disconnect st sid)
     = parted (members st)
         (truthy_str (current_workspace st sid)
            \<and> workspace_users st (the (current_workspace st sid)) \<noteq> None)
         (the (current_workspace st sid)) sid"
proof -
  let ?w = "the (current_workspace st sid)"
  let ?c = "truthy_str (current_workspace st sid) \<and> workspace_users st ?w \<noteq> None"
  define st1 where "st1 = (if ?c then
                   emit (discard_user st ?w sid)
                     \<lparr> ev_name = ''user_left'', ev_payload = UserLeft sid,
                       ev_room = ?w, ev_skip_sid = Some sid \<rparr>
                 else st)"
  define st2 where "st2 = (if user_info st1 sid \<noteq> None
                 then st1\<lparr> user_info := (user_info st1)(sid := None) \<rparr> else st1)"
  have d: "disconnect st sid = sio_close st2 sid"
    unfolding disconnect_def Let_def st1_def [symmetric] st2_def [symmetric] ..
  have s2: "sio_rooms st2 = sio_rooms st1" "members st2 = members st1"
    by (simp_all add: st2_def members_prims)
  have s1: "sio_rooms st1 = sio_rooms st" "members st1 = parted (members st) ?c ?w sid"
    by (auto simp: st1_def parted_def sio_rooms_prims members_prims members_discard_user)
  show "sio_rooms (disconnect st sid) = (\<lambda>w. sio_rooms st w - {sid})"
    by (simp add: d sio_close_frames s2 s1)
  show "members (disconnect st sid) = parted (members st) ?c ?w sid"
    by (simp add: d sio_close_frames s2 s1)
qed

lemma join_workspace_frames:
  assumes "truthy_str (d_workspace_id data)"
  shows "sio_rooms (snd (join_workspace st now sid data))
     = (let r = parted (sio_rooms st)
                  (truthy_str (current_workspace st sid)
                     \<and> workspace_users st (the (current_workspace st sid)) \<noteq> None)
                  (the (current_workspace st sid)) sid
        in r(the (d_workspace_id data) := insert sid (r (the (d_workspace_id data)))))"
    and "members (snd (join_workspace st now sid data))
     = (let r = parted (members st)
                  (truthy_str (current_workspace st sid)
                     \<and> workspace_users st (the (current_workspace st sid)) \<noteq> None)
                  (the (current_workspace st sid)) sid
        in r(the (d_workspace_id data) := insert sid (r (the (d_workspace_id data)))))"
proof -
  let ?w = "the (d_workspace_id data)"
  let ?o = "the (current_workspace st sid)"
  let ?c = "truthy_str (current_workspace st sid) \<and> workspace_users st ?o \<noteq> None"
  define st1 where "st1 = (if ?c then leave_room (discard_user st ?o sid) sid ?o else st)"
  define st2 where "st2 = enter_room st1 sid ?w"
  define st4 where "st4 = add_user (if workspace_users st2 ?w = None
                      then st2\<lparr> workspace_users := (workspace_users st2)(?w \<mapsto> {}) \<rparr>
                      else st2) ?w sid"
  have "snd (join_workspace st now sid data) = st4
      \<or> (\<exists>ui em. snd (join_workspace st now sid data) = emit (st4\<lparr> user_info := ui \<rparr>) em)"
    using assms
    unfolding join_workspace_def Let_def st1_def [symmetric] st2_def [symmetric]
      st4_def [symmetric]
    by (cases "user_info st4 sid") auto
  then have fr: "sio_rooms (snd (join_workspace st now sid data)) = sio_rooms st4"
    "members (snd (join_workspace st now sid data)) = members st4"
    by (auto simp: members_prims sio_rooms_prims)
  have s1: "sio_rooms st1 = parted (sio_rooms st) ?c ?o sid"
    "members st1 = parted (members st) ?c ?o sid"
    by (auto simp: st1_def parted_def sio_rooms_prims members_prims members_discard_user)
  have s2: "sio_rooms st2 = (sio_rooms st1)(?w := insert sid (sio_rooms st1 ?w))"
    "members st2 = members st1"
    by (simp_all add: st2_def sio_rooms_prims members_prims)
  have s4: "sio_rooms st4 = sio_rooms st2"
    "members st4 = (members st2)(?w := insert sid (members st2 ?w))"
    unfolding st4_def by (rule sio_rooms_add_user, rule members_add_user)
  show "sio_rooms (snd (join_workspace st now sid data))
     = (let r = parted (sio_rooms st) ?c ?o sid in r(?w := insert sid (r ?w)))"
    by (simp add: fr s4 s2 s1 Let_def)
  show "members (snd (join_workspace st now sid data))
     = (let r = parted (members st) ?c ?o sid in r(?w := insert sid (r ?w)))"
    by (simp add: fr s4 s2 s1 Let_def)
qed

lemma parted_subset:
  "\<forall>w. f w \<subseteq> g w \<Longrightarrow> \<forall>w. parted f c v sid w \<subseteq> parted g c v sid w"
  by (auto simp: parted_def)

lemma handle_rooms_subset:
  assumes "\<forall>w. sio_rooms st w \<subseteq> members st w"
  shows "\<forall>w. sio_rooms (handle now st ev) w \<subseteq> members (handle now st ev) w"
proof (cases ev)
  case (Connect sid)
  with assms show ?thesis by (simp add: connect_def members_def)
next
  case (Disconnect sid)
  have "\<forall>w. sio_rooms st w - {sid} \<subseteq> parted (members st) c v sid w" for c v
    using assms by (auto simp: parted_def)
  with Disconnect show ?thesis by (simp add: disconnect_frames)
next
  case (Join sid data)
  show ?thesis
  proof (cases "truthy_str (d_workspace_id data)")
    case True
    from parted_subset [OF assms] have
      "\<forall>w. ((parted (sio_rooms st) c v sid)
                (u := insert sid (parted (sio_rooms st) c v sid u))) w
          \<subseteq> ((parted (members st) c v sid)
                (u := insert sid (parted (members st) c v sid u))) w"
      for c v u
      by (simp add: subset_insertI2)
    with Join True show ?thesis by (simp add: join_workspace_frames Let_def)
  next
    case False
    with Join assms show ?thesis by (simp add: join_workspace_def)
  qed
next
  case (Leave sid data)
  with parted_subset [OF assms] show ?thesis by (simp add: leave_workspace_frames)
qed

lemma run_events_rooms_subset:
  "\<forall>w. sio_rooms st w \<subseteq> members st w \<Longrightarrow>
   \<forall>w. sio_rooms (run_events now st evs) w \<subseteq> members (run_events now st evs) w"
proof (induction evs arbitrary: st)
  case Nil
  then show ?case by (simp add: run_events_def)
next
  case (Cons ev evs)
  from Cons.IH [OF handle_rooms_subset [OF Cons.prems, of now ev]] show ?case
    by (simp add: run_events_def)
qed

lemma relay_recipients_are_members:
  assumes "st = run_events now SocketManager_init evs"
  shows "recipients st \<lparr> ev_name = e, ev_payload = p, ev_room = w, ev_skip_sid = Some sid \<rparr>
           \<subseteq> members st w - {sid}"
proof -
  have "\<forall>w. sio_rooms SocketManager_init w \<subseteq> members SocketManager_init w"
    by (simp add: SocketManager_init_def)
  from run_events_rooms_subset [OF this, of now evs] assms show ?thesis
    by (auto simp: recipients_def)
qed

end
